theory Spec2Isabelle
  imports Main
begin

section \<open>Python strings\<close>

text \<open>
  A Python \<open>str\<close> is a sequence of Unicode code points. The title sanitiser of the
  converter is applied to text with characters beyond Latin-1 (emoji), so a character is
  modelled by its code point, a natural number, and a string by the list of its code
  points. \<open>py\<close> embeds an ASCII literal of the source.
\<close>

type_synonym codepoint = nat
type_synonym ustring = "codepoint list"

definition py :: "string \<Rightarrow> ustring" where
  "py s = map of_char s"

abbreviation (input) ch_newline :: codepoint where "ch_newline \<equiv> 10"
abbreviation (input) ch_quot :: codepoint where "ch_quot \<equiv> 34"
abbreviation (input) ch_amp :: codepoint where "ch_amp \<equiv> 38"
abbreviation (input) ch_apos :: codepoint where "ch_apos \<equiv> 39"
abbreviation (input) ch_hyphen :: codepoint where "ch_hyphen \<equiv> 45"
abbreviation (input) ch_slash :: codepoint where "ch_slash \<equiv> 47"
abbreviation (input) ch_lt :: codepoint where "ch_lt \<equiv> 60"
abbreviation (input) ch_gt :: codepoint where "ch_gt \<equiv> 62"
abbreviation (input) ch_underscore :: codepoint where "ch_underscore \<equiv> 95"
abbreviation (input) ch_pipe :: codepoint where "ch_pipe \<equiv> 124"

text \<open>
  \<open>str.isspace\<close> of one character, which is also what \<open>str.strip()\<close> removes and what
  \<open>\s\<close> matches in a \<open>str\<close> pattern: the code points U+0009 to U+000D, U+001C to
  U+0020, U+0085, U+00A0, U+1680, U+2000 to U+200A, U+2028, U+2029, U+202F, U+205F and
  U+3000.
\<close>

definition is_space :: "codepoint \<Rightarrow> bool" where
  "is_space c \<longleftrightarrow>
     (9 \<le> c \<and> c \<le> 13) \<or> (28 \<le> c \<and> c \<le> 32) \<or> c = 133 \<or> c = 160 \<or> c = 5760 \<or>
     (8192 \<le> c \<and> c \<le> 8202) \<or> c = 8232 \<or> c = 8233 \<or> c = 8239 \<or> c = 8287 \<or> c = 12288"

text \<open>
  \<open>\w\<close> in a \<open>str\<close> pattern is the underscore and every character that
  \<open>str.isalnum\<close> accepts. On ASCII these are the letters and the digits; beyond ASCII
  the answer is a table of the Unicode database, which is not part of the program: it is
  the parameter \<open>alnum\<close>.
\<close>

definition is_word :: "(codepoint \<Rightarrow> bool) \<Rightarrow> codepoint \<Rightarrow> bool" where
  "is_word alnum c \<longleftrightarrow>
     (if c < 128
      then (48 \<le> c \<and> c \<le> 57) \<or> (65 \<le> c \<and> c \<le> 90) \<or> (97 \<le> c \<and> c \<le> 122) \<or>
           c = ch_underscore
      else alnum c)"

text \<open>\<open>s.strip()\<close>: leading and trailing whitespace removed.\<close>

definition strip :: "ustring \<Rightarrow> ustring" where
  "strip s = rev (dropWhile is_space (rev (dropWhile is_space s)))"

text \<open>\<open>s.startswith(p)\<close> and \<open>s.endswith(p)\<close>.\<close>

definition startswith :: "ustring \<Rightarrow> ustring \<Rightarrow> bool" where
  "startswith s p \<longleftrightarrow> take (length p) s = p"

definition endswith :: "ustring \<Rightarrow> ustring \<Rightarrow> bool" where
  "endswith s p \<longleftrightarrow> length p \<le> length s \<and> drop (length s - length p) s = p"

text \<open>
  \<open>s.split(sep)\<close> for a separator of one character: the pieces between the
  separators, empty pieces included; never the empty list.
\<close>

fun split_on :: "codepoint \<Rightarrow> ustring \<Rightarrow> ustring list" where
  "split_on sep [] = [[]]"
| "split_on sep (c # cs) =
     (let r = split_on sep cs in if c = sep then [] # r else (c # hd r) # tl r)"

text \<open>\<open>sep.join(xs)\<close>.\<close>

fun join :: "ustring \<Rightarrow> ustring list \<Rightarrow> ustring" where
  "join sep [] = []"
| "join sep [x] = x"
| "join sep (x # y # ys) = x @ sep @ join sep (y # ys)"

text \<open>\<open>text.replace(old, new)\<close> for a pattern \<open>old\<close> of one character.\<close>

definition replace_char :: "codepoint \<Rightarrow> ustring \<Rightarrow> ustring \<Rightarrow> ustring" where
  "replace_char old new s = concat (map (\<lambda>c. if c = old then new else [c]) s)"

text \<open>\<open>str(n)\<close> for a natural number: its decimal digits.\<close>

fun str_nat :: "nat \<Rightarrow> ustring" where
  "str_nat n = (if n < 10 then [48 + n] else str_nat (n div 10) @ [48 + n mod 10])"

declare str_nat.simps [simp del]

text \<open>
  \<open>html.escape(s, quote)\<close> of the standard library: three replacements, the ampersand
  first, and two more when \<open>quote\<close> is set.
\<close>

definition html_escape :: "ustring \<Rightarrow> bool \<Rightarrow> ustring" where
  "html_escape s quote =
     (let s = replace_char ch_amp (py ''&amp;'') s;
          s = replace_char ch_lt (py ''&lt;'') s;
          s = replace_char ch_gt (py ''&gt;'') s
      in if quote
         then replace_char ch_apos (py ''&#x27;'') (replace_char ch_quot (py ''&quot;'') s)
         else s)"

section \<open>Escaping\<close>

text \<open>
  \<open>FixedManualToODPConverter.escape_xml\<close>: the empty string is returned as it is;
  otherwise \<open>html.escape(text, quote=False)\<close> is followed by five replacements of the
  reserved characters, the ampersand among them.
\<close>

definition escape_xml :: "ustring \<Rightarrow> ustring" where
  "escape_xml text =
     (if text = [] then []
      else
        let text = html_escape text False;
            text = replace_char ch_amp (py ''&amp;'') text;
            text = replace_char ch_lt (py ''&lt;'') text;
            text = replace_char ch_gt (py ''&gt;'') text;
            text = replace_char ch_quot (py ''&quot;'') text;
            text = replace_char ch_apos (py ''&apos;'') text
        in text)"

text \<open>The five characters reserved in XML: \<open>& < > " '\<close>.\<close>

definition xml_reserved :: "codepoint set" where
  "xml_reserved = {ch_amp, ch_lt, ch_gt, ch_quot, ch_apos}"

text \<open>The ASCII letters and digits.\<close>

definition ascii_alnum :: "codepoint set" where
  "ascii_alnum = {48..57} \<union> {65..90} \<union> {97..122}"

text \<open>
  What an XML parser returns for character data: the text with each reference to one of
  the five predefined entities replaced by its character. \<open>None\<close> is the parser's
  rejection: a \<open><\<close>, or an ampersand that does not start such a reference (numeric
  character references are not needed here and are rejected as well).
\<close>

fun xml_text :: "ustring \<Rightarrow> ustring option" where
  "xml_text [] = Some []"
| "xml_text (c # cs) =
     (if c = ch_lt then None
      else if c = ch_amp then
        (if startswith cs (py ''amp;'') then map_option ((#) ch_amp) (xml_text (drop 4 cs))
         else if startswith cs (py ''lt;'') then map_option ((#) ch_lt) (xml_text (drop 3 cs))
         else if startswith cs (py ''gt;'') then map_option ((#) ch_gt) (xml_text (drop 3 cs))
         else if startswith cs (py ''quot;'') then map_option ((#) ch_quot) (xml_text (drop 5 cs))
         else if startswith cs (py ''apos;'') then map_option ((#) ch_apos) (xml_text (drop 5 cs))
         else None)
      else map_option ((#) c) (xml_text cs))"

section \<open>The block parser\<close>

text \<open>
  A content block is the dictionary \<open>{'type': ..., 'text': ...}\<close> of the source; the
  parser writes four values of \<open>'type'\<close>: \<open>'subtitle'\<close>, \<open>'bullet'\<close>, \<open>'bold'\<close> and
  \<open>'text'\<close>. A slide is the dictionary \<open>{'title': ..., 'content': [...]}\<close>.
\<close>

datatype block_type = Subtitle | Bullet | Bold | PlainText

record content_block =
  item_type :: block_type
  item_text :: ustring

record slide =
  title :: ustring
  content :: "content_block list"

text \<open>
  The variables of \<open>parse_content\<close>: \<open>self.slides\<close>, \<open>current_slide\<close> (\<open>None\<close> until
  the first title line) and \<open>current_content\<close>.
\<close>

record parser_state =
  slides :: "slide list"
  current_slide :: "slide option"
  current_content :: "content_block list"

text \<open>\<open>re.sub(r'[^\w\s\-]', '', title)\<close>.\<close>

definition clean_title :: "(codepoint \<Rightarrow> bool) \<Rightarrow> ustring \<Rightarrow> ustring" where
  "clean_title alnum t = filter (\<lambda>c. is_word alnum c \<or> is_space c \<or> c = ch_hyphen) t"

text \<open>\<open>current_content.append(item)\<close>.\<close>

definition append_block :: "parser_state \<Rightarrow> block_type \<Rightarrow> ustring \<Rightarrow> parser_state" where
  "append_block st ty t =
     st\<lparr>current_content := current_content st @ [\<lparr>item_type = ty, item_text = t\<rparr>]\<rparr>"

text \<open>
  The body of the loop of \<open>parse_content\<close> for one line. \<open>line[2:-2]\<close> is
  \<open>take (length line - 4) (drop 2 line)\<close>, empty when the line has fewer than five
  characters; \<open>line.split('|')[1:-1]\<close> drops the first and the last piece.
\<close>

definition parse_line :: "(codepoint \<Rightarrow> bool) \<Rightarrow> parser_state \<Rightarrow> ustring \<Rightarrow> parser_state" where
  "parse_line alnum st raw =
     (let line = strip raw in
      if startswith line (py ''## '') \<and> \<not> startswith line (py ''### '') then
        let st = (case current_slide st of
                    Some cur \<Rightarrow> st\<lparr>slides := slides st @ [cur\<lparr>content := current_content st\<rparr>]\<rparr>
                  | None \<Rightarrow> st);
            title = strip (drop 3 line);
            clean = clean_title alnum title
        in st\<lparr>current_slide := Some \<lparr>title = clean, content = []\<rparr>, current_content := []\<rparr>
      else if current_slide st \<noteq> None \<and> line \<noteq> [] then
        if startswith line (py ''### '') then
          append_block st Subtitle (strip (drop 4 line))
        else if startswith line (py ''- '') then
          append_block st Bullet (strip (drop 2 line))
        else if startswith line (py ''**'') \<and> endswith line (py ''**'') then
          append_block st Bold (strip (take (length line - 4) (drop 2 line)))
        else if startswith line (py ''|'') \<and> ch_pipe \<in> set (drop 1 line) then
          if ch_pipe \<in> set line \<and> \<not> startswith line (py ''|---'') then
            let cells = map strip (butlast (tl (split_on ch_pipe line))) in
            if cells \<noteq> [] \<and> hd cells \<noteq> [] then
              append_block st PlainText (join (py '' | '') cells)
            else st
          else st
        else if line \<noteq> [] \<and> \<not> startswith line (py ''---'') then
          append_block st PlainText line
        else st
      else st)"

text \<open>
  \<open>parse_content\<close>: the loop over \<open>content.split('\n')\<close>, then the last slide is
  appended. The method works on \<open>self.slides\<close>, taken here as an argument and returned;
  the constructor sets it to the empty list.
\<close>

definition parse_content :: "(codepoint \<Rightarrow> bool) \<Rightarrow> slide list \<Rightarrow> ustring \<Rightarrow> slide list" where
  "parse_content alnum self_slides text =
     (let st = foldl (parse_line alnum)
                 \<lparr>slides = self_slides, current_slide = None, current_content = []\<rparr>
                 (split_on ch_newline text)
      in case current_slide st of
           Some cur \<Rightarrow> slides st @ [cur\<lparr>content := current_content st\<rparr>]
         | None \<Rightarrow> slides st)"

text \<open>
  The line classification in the words of the specification: an ordered list of rules,
  each a predicate on the stripped line and the blocks it emits, of which the first
  whose predicate holds decides.
\<close>

definition block :: "block_type \<Rightarrow> ustring \<Rightarrow> content_block" where
  "block ty t = \<lparr>item_type = ty, item_text = t\<rparr>"

definition table_cells :: "ustring \<Rightarrow> ustring list" where
  "table_cells line = map strip (butlast (tl (split_on ch_pipe line)))"

definition line_rules :: "((ustring \<Rightarrow> bool) \<times> (ustring \<Rightarrow> content_block list)) list" where
  "line_rules =
     [(\<lambda>l. startswith l (py ''### ''), \<lambda>l. [block Subtitle (strip (drop 4 l))]),
      (\<lambda>l. startswith l (py ''- ''), \<lambda>l. [block Bullet (strip (drop 2 l))]),
      (\<lambda>l. startswith l (py ''**'') \<and> endswith l (py ''**''),
       \<lambda>l. [block Bold (strip (take (length l - 4) (drop 2 l)))]),
      (\<lambda>l. startswith l (py ''|'') \<and> ch_pipe \<in> set (drop 1 l),
       \<lambda>l. if \<not> startswith l (py ''|---'') \<and> table_cells l \<noteq> [] \<and> hd (table_cells l) \<noteq> []
            then [block PlainText (join (py '' | '') (table_cells l))] else []),
      (\<lambda>l. startswith l (py ''---''), \<lambda>l. []),
      (\<lambda>l. True, \<lambda>l. [block PlainText l])]"

fun first_match :: "(('a \<Rightarrow> bool) \<times> ('a \<Rightarrow> 'b list)) list \<Rightarrow> 'a \<Rightarrow> 'b list" where
  "first_match [] x = []"
| "first_match ((p, f) # rs) x = (if p x then f x else first_match rs x)"

text \<open>A level-2 section marker: the stripped line starts with \<open>## \<close>.\<close>

definition is_title_line :: "ustring \<Rightarrow> bool" where
  "is_title_line raw \<longleftrightarrow> startswith (strip raw) (py ''## '')"

text \<open>
  A header-separator row of a pipe table by the convention of Markdown tables, dashes
  under pipes: the stripped line starts and ends with \<open>|\<close>, and each of its cells,
  of which there is at least one, holds only hyphens, at least one, between optional
  white space, with an optional colon on either side for the alignment. So
  \<open>|---|---|\<close>, \<open>| --- | --- |\<close> and \<open>|:---|---:|\<close> are separator rows.
\<close>

definition delimiter_cell :: "ustring \<Rightarrow> bool" where
  "delimiter_cell cell \<longleftrightarrow>
     (let s = strip cell;
          s = (if s \<noteq> [] \<and> hd s = 58 then tl s else s);
          s = (if s \<noteq> [] \<and> last s = 58 then butlast s else s)
      in s \<noteq> [] \<and> list_all (\<lambda>c. c = ch_hyphen) s)"

definition is_separator_row :: "ustring \<Rightarrow> bool" where
  "is_separator_row raw \<longleftrightarrow>
     (let line = strip raw;
          cells = butlast (tl (split_on ch_pipe line))
      in 2 \<le> length line \<and> startswith line (py ''|'') \<and> endswith line (py ''|'') \<and>
         cells \<noteq> [] \<and> list_all delimiter_cell cells)"

section \<open>The package generator\<close>

text \<open>The lines of \<open>content.xml\<close> before the pages: the initial value of \<open>content_lines\<close> in \<open>create_content_xml\<close>.\<close>

definition content_header :: "ustring list" where
  \<open>content_header =
     [py ''<?xml version="1.0" encoding="UTF-8"?>'',
      py ''<office:document-content xmlns:office="urn:oasis:names:tc:opendocument:xmlns:office:1.0"'',
      py ''                        xmlns:style="urn:oasis:names:tc:opendocument:xmlns:style:1.0"'',
      py ''                        xmlns:text="urn:oasis:names:tc:opendocument:xmlns:text:1.0"'',
      py ''                        xmlns:table="urn:oasis:names:tc:opendocument:xmlns:table:1.0"'',
      py ''                        xmlns:draw="urn:oasis:names:tc:opendocument:xmlns:drawing:1.0"'',
      py ''                        xmlns:fo="urn:oasis:names:tc:opendocument:xmlns:xsl-fo-compatible:1.0"'',
      py ''                        xmlns:xlink="http://www.w3.org/1999/xlink"'',
      py ''                        xmlns:dc="http://purl.org/dc/elements/1.1/"'',
      py ''                        xmlns:meta="urn:oasis:names:tc:opendocument:xmlns:meta:1.0"'',
      py ''                        xmlns:number="urn:oasis:names:tc:opendocument:xmlns:datastyle:1.0"'',
      py ''                        xmlns:svg="urn:oasis:names:tc:opendocument:xmlns:svg-compatible:1.0"'',
      py ''                        xmlns:chart="urn:oasis:names:tc:opendocument:xmlns:chart:1.0"'',
      py ''                        xmlns:dr3d="urn:oasis:names:tc:opendocument:xmlns:dr3d:1.0"'',
      py ''                        xmlns:math="http://www.w3.org/1998/Math/MathML"'',
      py ''                        xmlns:form="urn:oasis:names:tc:opendocument:xmlns:form:1.0"'',
      py ''                        xmlns:script="urn:oasis:names:tc:opendocument:xmlns:script:1.0"'',
      py ''                        xmlns:ooo="http://openoffice.org/2004/office"'',
      py ''                        xmlns:ooow="http://openoffice.org/2004/writer"'',
      py ''                        xmlns:oooc="http://openoffice.org/2004/calc"'',
      py ''                        xmlns:dom="http://www.w3.org/2001/xml-events"'',
      py ''                        xmlns:xforms="http://www.w3.org/2002/xforms"'',
      py ''                        xmlns:xsd="http://www.w3.org/2001/XMLSchema"'',
      py ''                        xmlns:xsi="http://www.w3.org/2001/XMLSchema-instance"'',
      py ''                        xmlns:rpt="http://openoffice.org/2005/report"'',
      py ''                        xmlns:of="urn:oasis:names:tc:opendocument:xmlns:of:1.2"'',
      py ''                        xmlns:xhtml="http://www.w3.org/1999/xhtml"'',
      py ''                        xmlns:grddl="http://www.w3.org/2003/g/data-view#"'',
      py ''                        xmlns:tableooo="http://openoffice.org/2009/table"'',
      py ''                        xmlns:field="urn:oasis:names:tc:opendocument:xmlns:field:1.0"'',
      py ''                        xmlns:formx="urn:oasis:names:tc:opendocument:xmlns:form:1.0"'',
      py ''                        xmlns:css3t="http://www.w3.org/TR/css3-text/"'',
      py ''                        office:version="1.2">'',
      py ''  <office:scripts/>'',
      py ''  <office:font-face-decls/>'',
      py ''  <office:automatic-styles>'',
      py ''    <style:style style:name="dp1" style:family="drawing-page">'',
      py ''      <style:drawing-page-properties draw:background-size="full" draw:fill="none"/>'',
      py ''    </style:style>'',
      py ''    <style:style style:name="gr1" style:family="graphic" style:parent-style-name="standard">'',
      py ''      <style:graphic-properties draw:stroke="none" draw:fill="none"/>'',
      py ''    </style:style>'',
      py ''    <style:style style:name="gr2" style:family="graphic" style:parent-style-name="standard">'',
      py ''      <style:graphic-properties draw:stroke="none" draw:fill="none"/>'',
      py ''    </style:style>'',
      py ''    <style:style style:name="gr3" style:family="graphic" style:parent-style-name="standard">'',
      py ''      <style:graphic-properties draw:stroke="none" draw:fill="none"/>'',
      py ''    </style:style>'',
      py ''    <style:style style:name="P1" style:family="paragraph" style:parent-style-name="standard">'',
      py ''      <style:paragraph-properties fo:text-align="center" fo:margin-top="0.423cm" fo:margin-bottom="0.212cm"/>'',
      py ''      <style:text-properties fo:font-size="24pt" style:font-size-asian="24pt" style:font-size-complex="24pt" fo:font-weight="bold"/>'',
      py ''    </style:style>'',
      py ''    <style:style style:name="P2" style:family="paragraph" style:parent-style-name="standard">'',
      py ''      <style:paragraph-properties fo:margin-top="0.212cm" fo:margin-bottom="0.212cm"/>'',
      py ''      <style:text-properties fo:font-size="18pt" style:font-size-asian="18pt" style:font-size-complex="18pt" fo:font-weight="bold"/>'',
      py ''    </style:style>'',
      py ''    <style:style style:name="P3" style:family="paragraph" style:parent-style-name="standard">'',
      py ''      <style:paragraph-properties fo:margin-top="0.106cm" fo:margin-bottom="0.106cm"/>'',
      py ''      <style:text-properties fo:font-size="12pt" style:font-size-asian="12pt" style:font-size-complex="12pt"/>'',
      py ''    </style:style>'',
      py ''  </office:automatic-styles>'',
      py ''  <office:master-styles>'',
      py ''    <style:master-page style:name="Standard" style:page-layout-name="AL1T0">'',
      py ''      <style:header/>'',
      py ''      <style:footer/>'',
      py ''    </style:master-page>'',
      py ''  </office:master-styles>'',
      py ''  <office:body>'',
      py ''    <office:presentation>'']\<close>

text \<open>The lines appended after the pages.\<close>

definition content_footer :: "ustring list" where
  \<open>content_footer =
     [py ''    </office:presentation>'',
      py ''  </office:body>'',
      py ''</office:document-content>'']\<close>

text \<open>The lines of \<open>manifest_content\<close> in \<open>create_manifest\<close>.\<close>

definition manifest_lines :: "ustring list" where
  \<open>manifest_lines =
     [py ''<?xml version="1.0" encoding="UTF-8"?>'',
      py ''<manifest:manifest xmlns:manifest="urn:oasis:names:tc:opendocument:xmlns:manifest:1.0">'',
      py ''  <manifest:file-entry manifest:full-path="/" manifest:media-type="application/vnd.oasis.opendocument.presentation"/>'',
      py ''  <manifest:file-entry manifest:full-path="content.xml" manifest:media-type="text/xml"/>'',
      py ''  <manifest:file-entry manifest:full-path="styles.xml" manifest:media-type="text/xml"/>'',
      py ''  <manifest:file-entry manifest:full-path="meta.xml" manifest:media-type="text/xml"/>'',
      py ''</manifest:manifest>'']\<close>

text \<open>The lines of \<open>styles_content\<close> in \<open>create_styles_xml\<close>.\<close>

definition styles_lines :: "ustring list" where
  \<open>styles_lines =
     [py ''<?xml version="1.0" encoding="UTF-8"?>'',
      py ''<office:document-styles xmlns:office="urn:oasis:names:tc:opendocument:xmlns:office:1.0" '',
      py ''                       xmlns:style="urn:oasis:names:tc:opendocument:xmlns:style:1.0" '',
      py ''                       xmlns:text="urn:oasis:names:tc:opendocument:xmlns:text:1.0" '',
      py ''                       xmlns:table="urn:oasis:names:tc:opendocument:xmlns:table:1.0" '',
      py ''                       xmlns:draw="urn:oasis:names:tc:opendocument:xmlns:drawing:1.0" '',
      py ''                       xmlns:fo="urn:oasis:names:tc:opendocument:xmlns:xsl-fo-compatible:1.0" '',
      py ''                       xmlns:xlink="http://www.w3.org/1999/xlink" '',
      py ''                       xmlns:dc="http://purl.org/dc/elements/1.1/" '',
      py ''                       xmlns:meta="urn:oasis:names:tc:opendocument:xmlns:meta:1.0" '',
      py ''                       xmlns:number="urn:oasis:names:tc:opendocument:xmlns:datastyle:1.0" '',
      py ''                       xmlns:svg="urn:oasis:names:tc:opendocument:xmlns:svg-compatible:1.0" '',
      py ''                       xmlns:chart="urn:oasis:names:tc:opendocument:xmlns:chart:1.0" '',
      py ''                       xmlns:dr3d="urn:oasis:names:tc:opendocument:xmlns:dr3d:1.0" '',
      py ''                       xmlns:math="http://www.w3.org/1998/Math/MathML" '',
      py ''                       xmlns:form="urn:oasis:names:tc:opendocument:xmlns:form:1.0" '',
      py ''                       xmlns:script="urn:oasis:names:tc:opendocument:xmlns:script:1.0" '',
      py ''                       xmlns:ooo="http://openoffice.org/2004/office" '',
      py ''                       xmlns:ooow="http://openoffice.org/2004/writer" '',
      py ''                       xmlns:oooc="http://openoffice.org/2004/calc" '',
      py ''                       xmlns:dom="http://www.w3.org/2001/xml-events" '',
      py ''                       xmlns:xforms="http://www.w3.org/2002/xforms" '',
      py ''                       xmlns:xsd="http://www.w3.org/2001/XMLSchema" '',
      py ''                       xmlns:xsi="http://www.w3.org/2001/XMLSchema-instance" '',
      py ''                       xmlns:rpt="http://openoffice.org/2005/report" '',
      py ''                       xmlns:of="urn:oasis:names:tc:opendocument:xmlns:of:1.2" '',
      py ''                       xmlns:xhtml="http://www.w3.org/1999/xhtml" '',
      py ''                       xmlns:grddl="http://www.w3.org/2003/g/data-view#" '',
      py ''                       xmlns:tableooo="http://openoffice.org/2009/table" '',
      py ''                       xmlns:field="urn:oasis:names:tc:opendocument:xmlns:field:1.0" '',
      py ''                       xmlns:formx="urn:oasis:names:tc:opendocument:xmlns:form:1.0" '',
      py ''                       xmlns:css3t="http://www.w3.org/TR/css3-text/" '',
      py ''                       office:version="1.2">'',
      py ''  <office:font-face-decls/>'',
      py ''  <office:automatic-styles/>'',
      py ''  <office:master-styles/>'',
      py ''</office:document-styles>'']\<close>

text \<open>The lines of \<open>meta_content\<close> in \<open>create_meta_xml\<close>; \<open>now\<close> is \<open>datetime.now().isoformat()\<close>.\<close>

definition meta_lines :: "ustring \<Rightarrow> ustring list" where
  \<open>meta_lines now =
     [py ''<?xml version="1.0" encoding="UTF-8"?>'',
      py ''<office:document-meta xmlns:office="urn:oasis:names:tc:opendocument:xmlns:office:1.0" '',
      py ''                      xmlns:meta="urn:oasis:names:tc:opendocument:xmlns:meta:1.0" '',
      py ''                      xmlns:dc="http://purl.org/dc/elements/1.1/" '',
      py ''                      xmlns:xlink="http://www.w3.org/1999/xlink" '',
      py ''                      office:version="1.2">'',
      py ''  <office:meta>'',
      py ''    <dc:title>Manual de Usuario - Dashboard Mi Integraci'' @ [243] @ py ''n API</dc:title>'',
      py ''    <dc:description>Manual completo del Dashboard del plugin Mi Integraci'' @ [243] @ py ''n API</dc:description>'',
      py ''    <dc:creator>Sistema de Conversi'' @ [243] @ py ''n Autom'' @ [225] @ py ''tica</dc:creator>'',
      py ''    <dc:date>'' @ now @ py ''</dc:date>'',
      py ''  </office:meta>'',
      py ''</office:document-meta>'']\<close>

text \<open>
  \<open>content_y\<close> is a float that starts at 4.0, grows by 0.8, 0.5 or 0.4 at most eight
  times, and is only ever printed with \<open>{content_y:.1f}\<close>. Every value it takes is within
  rounding error of a multiple of 0.1 not above 10.4, so the printed text is that multiple
  exactly: the model counts tenths.
\<close>

definition fmt_tenths :: "nat \<Rightarrow> ustring" where
  "fmt_tenths y = str_nat (y div 10) @ py ''.'' @ str_nat (y mod 10)"

text \<open>
  The loop of \<open>create_slide_xml_lines\<close> over \<open>slide_data['content']\<close>, with the lines
  it appends as its result. \<open>break\<close> ends it at eight emitted blocks; \<open>continue\<close>
  skips a block with empty text (a block of the parser always has the key \<open>'text'\<close>).
  The \<open>if\<close>/\<open>elif\<close> chain has a branch for \<open>'subtitle'\<close>, \<open>'bullet'\<close> and \<open>'text'\<close>
  and none for \<open>'bold'\<close>: such a block appends nothing and leaves \<open>content_y\<close> and
  \<open>content_count\<close> as they are.
\<close>

fun content_loop :: "content_block list \<Rightarrow> nat \<Rightarrow> nat \<Rightarrow> ustring list" where
  \<open>content_loop [] content_y content_count = []\<close>
| \<open>content_loop (content_item # rest) content_y content_count =
     (if content_count \<ge> 8 then []
      else if item_text content_item = [] then content_loop rest content_y content_count
      else
        let escaped_text = escape_xml (item_text content_item) in
        (case item_type content_item of
           Subtitle \<Rightarrow>
             (let content_y = content_y + 8 in
              [py ''        <draw:frame draw:style-name="gr2" draw:text-style-name="P2" draw:layer="layout" svg:width="25.199cm" svg:height="0.6cm" svg:x="1.4cm" svg:y="'' @ fmt_tenths content_y @ py ''cm">'',
               py ''          <draw:text-box>'',
               py ''            <text:p text:style-name="P2">'' @ escaped_text @ py ''</text:p>'',
               py ''          </draw:text-box>'',
               py ''        </draw:frame>'']
              @ content_loop rest content_y (content_count + 1))
         | Bullet \<Rightarrow>
             (let content_y = content_y + 5 in
              [py ''        <draw:frame draw:style-name="gr3" draw:text-style-name="P3" draw:layer="layout" svg:width="25.199cm" svg:height="0.5cm" svg:x="2.0cm" svg:y="'' @ fmt_tenths content_y @ py ''cm">'',
               py ''          <draw:text-box>'',
               py ''            <text:p text:style-name="P3">'' @ [8226] @ py '' '' @ escaped_text @ py ''</text:p>'',
               py ''          </draw:text-box>'',
               py ''        </draw:frame>'']
              @ content_loop rest content_y (content_count + 1))
         | PlainText \<Rightarrow>
             (let content_y = content_y + 4 in
              [py ''        <draw:frame draw:style-name="gr3" draw:text-style-name="P3" draw:layer="layout" svg:width="25.199cm" svg:height="0.4cm" svg:x="1.4cm" svg:y="'' @ fmt_tenths content_y @ py ''cm">'',
               py ''          <draw:text-box>'',
               py ''            <text:p text:style-name="P3">'' @ escaped_text @ py ''</text:p>'',
               py ''          </draw:text-box>'',
               py ''        </draw:frame>'']
              @ content_loop rest content_y (content_count + 1))
         | Bold \<Rightarrow> content_loop rest content_y content_count))\<close>

text \<open>\<open>create_slide_xml_lines(slide_data, slide_number)\<close>.\<close>

definition create_slide_xml_lines :: "slide \<Rightarrow> nat \<Rightarrow> ustring list" where
  \<open>create_slide_xml_lines slide_data slide_number =
     (let escaped_title = escape_xml (title slide_data) in
      [py ''      <draw:page draw:name="Slide'' @ str_nat (slide_number + 1) @ py ''" draw:style-name="dp1" draw:master-page-name="Standard">'',
       py ''        <draw:frame draw:style-name="gr1" draw:text-style-name="P1" draw:layer="layout" svg:width="25.199cm" svg:height="3.506cm" svg:x="1.4cm" svg:y="0.3cm">'',
       py ''          <draw:text-box>'',
       py ''            <text:p text:style-name="P1">'' @ escaped_title @ py ''</text:p>'',
       py ''          </draw:text-box>'',
       py ''        </draw:frame>'']
      @ content_loop (content slide_data) 40 0
      @ [py ''      </draw:page>''])\<close>

text \<open>
  \<open>create_content_xml\<close>: the list \<open>content_lines\<close> it builds
  (\<open>enumerate(self.slides)\<close> numbers the slides from 0) and the text written to
  \<open>content.xml\<close>, the lines joined by newlines.
\<close>

definition content_lines :: "slide list \<Rightarrow> ustring list" where
  "content_lines self_slides =
     content_header
     @ concat (map (\<lambda>(i, slide). create_slide_xml_lines slide i)
                 (zip [0 ..< length self_slides] self_slides))
     @ content_footer"

definition content_xml :: "slide list \<Rightarrow> ustring" where
  "content_xml self_slides = join [ch_newline] (content_lines self_slides)"

text \<open>
  A content shape is counted by its opening line, a page by its opening line: the only
  lines of the generator that start with these prefixes.
\<close>

definition is_frame_line :: "ustring \<Rightarrow> bool" where
  \<open>is_frame_line l \<longleftrightarrow> startswith l (py ''        <draw:frame '')\<close>


text \<open>
  The layout of one emitted block, read off the three branches of the loop: the vertical
  increment in tenths of a centimetre, the horizontal offset, the shape height, the
  graphic and paragraph styles and the text prefix. \<open>Bold\<close> has no branch.
\<close>

record layout =
  increment :: nat
  offset_x :: ustring
  height :: ustring
  graphic_style :: ustring
  paragraph_style :: ustring
  text_prefix :: ustring

fun layout_of :: "block_type \<Rightarrow> layout option" where
  "layout_of Subtitle = Some \<lparr>increment = 8, offset_x = py ''1.4cm'', height = py ''0.6cm'',
     graphic_style = py ''gr2'', paragraph_style = py ''P2'', text_prefix = []\<rparr>"
| "layout_of Bullet = Some \<lparr>increment = 5, offset_x = py ''2.0cm'', height = py ''0.5cm'',
     graphic_style = py ''gr3'', paragraph_style = py ''P3'', text_prefix = [8226, 32]\<rparr>"
| "layout_of PlainText = Some \<lparr>increment = 4, offset_x = py ''1.4cm'', height = py ''0.4cm'',
     graphic_style = py ''gr3'', paragraph_style = py ''P3'', text_prefix = []\<rparr>"
| "layout_of Bold = None"

text \<open>The five lines of a content shape with layout \<open>l\<close>, at height \<open>y\<close>, holding \<open>t\<close>.\<close>

definition shape_lines :: "layout \<Rightarrow> nat \<Rightarrow> ustring \<Rightarrow> ustring list" where
  \<open>shape_lines l y t =
     [py ''        <draw:frame draw:style-name="'' @ graphic_style l
        @ py ''" draw:text-style-name="'' @ paragraph_style l
        @ py ''" draw:layer="layout" svg:width="25.199cm" svg:height="'' @ height l
        @ py ''" svg:x="'' @ offset_x l @ py ''" svg:y="'' @ fmt_tenths y @ py ''cm">'',
      py ''          <draw:text-box>'',
      py ''            <text:p text:style-name="'' @ paragraph_style l @ py ''">''
        @ text_prefix l @ escape_xml t @ py ''</text:p>'',
      py ''          </draw:text-box>'',
      py ''        </draw:frame>'']\<close>

text \<open>
  The blocks for which the loop appends a shape, read off the loop: the text is not
  empty and the \<open>if\<close>/\<open>elif\<close> chain has a branch for the type.
\<close>

definition emitted :: "content_block \<Rightarrow> bool" where
  "emitted b \<longleftrightarrow> item_text b \<noteq> [] \<and> layout_of (item_type b) \<noteq> None"

text \<open>
  A qualifying block in the words of the specification: a block is dropped only when its
  text is empty.
\<close>

definition qualifying :: "content_block \<Rightarrow> bool" where
  "qualifying b \<longleftrightarrow> item_text b \<noteq> []"

text \<open>The shapes of a list of blocks, one under the other from height \<open>y\<close>.\<close>

fun stack :: "content_block list \<Rightarrow> nat \<Rightarrow> ustring list" where
  "stack [] y = []"
| "stack (b # bs) y =
     (case layout_of (item_type b) of
        None \<Rightarrow> stack bs y
      | Some l \<Rightarrow> shape_lines l (y + increment l) (item_text b) @ stack bs (y + increment l))"

section \<open>Well-formed XML\<close>





















section \<open>Files, the staging directory and the archive writer\<close>

text \<open>
  The file system is an association list from paths to nodes, in the order in which a
  directory listing returns them. A text file is identified with the text it holds, a
  zip archive with the list of its entries. \<open>fault\<close> is the environment: the error, if
  any, that creating a path, opening it for writing or removing it raises (permissions,
  a full disk, an invalid path); \<open>now\<close> is \<open>datetime.now().isoformat()\<close>. What the
  program prints is not modelled.
\<close>

datatype compression = ZIP_STORED | ZIP_DEFLATED

record zip_entry =
  arcname :: ustring
  compress_type :: compression
  data :: "nat list"

datatype node = Dir | File ustring | Archive "zip_entry list"

datatype os_error =
    FileNotFoundError ustring
  | IsADirectoryError ustring
  | NotADirectoryError ustring
  | FileExistsError ustring
  | UnicodeDecodeError ustring
  | PermissionError ustring
  | NoSpaceError ustring

record world =
  fs :: "(ustring \<times> node) list"
  fault :: "ustring \<Rightarrow> os_error option"
  now :: ustring

text \<open>
  An operation takes the world and returns its result, a value or the exception it
  raises, with the world as it is then.
\<close>

type_synonym 'a io = "world \<Rightarrow> (os_error + 'a) \<times> world"

definition and_then :: "'a io \<Rightarrow> ('a \<Rightarrow> 'b io) \<Rightarrow> 'b io" where
  "and_then m f w = (case m w of (Inl e, w') \<Rightarrow> (Inl e, w') | (Inr x, w') \<Rightarrow> f x w')"

definition lookup :: "world \<Rightarrow> ustring \<Rightarrow> node option" where
  "lookup w p = map_of (fs w) p"

text \<open>\<open>os.path.exists(p)\<close>.\<close>

definition path_exists :: "world \<Rightarrow> ustring \<Rightarrow> bool" where
  "path_exists w p \<longleftrightarrow> lookup w p \<noteq> None"

text \<open>The node at \<open>p\<close> replaced, or added at the end of the listing.\<close>

fun store :: "ustring \<Rightarrow> node \<Rightarrow> (ustring \<times> node) list \<Rightarrow> (ustring \<times> node) list" where
  "store p n [] = [(p, n)]"
| "store p n ((q, m) # rest) = (if q = p then (p, n) # rest else (q, m) # store p n rest)"

text \<open>
  \<open>shutil.rmtree(d)\<close> removes the directory and everything under it. It raises when
  there is nothing at \<open>d\<close>, when \<open>d\<close> is a regular file, and when the environment
  refuses the removal; what a refused removal has already deleted is not modelled.
\<close>

definition under :: "ustring \<Rightarrow> ustring \<Rightarrow> bool" where
  "under d p \<longleftrightarrow> p = d \<or> startswith p (d @ [ch_slash])"

definition rmtree :: "ustring \<Rightarrow> unit io" where
  "rmtree d w =
     (case lookup w d of
        None \<Rightarrow> (Inl (FileNotFoundError d), w)
      | Some Dir \<Rightarrow>
          (case fault w d of
             Some e \<Rightarrow> (Inl e, w)
           | None \<Rightarrow> (Inr (), w\<lparr>fs := filter (\<lambda>(p, n). \<not> under d p) (fs w)\<rparr>))
      | Some _ \<Rightarrow> (Inl (NotADirectoryError d), w))"

text \<open>
  \<open>os.makedirs(p, exist_ok=True)\<close>: every missing directory on the way to \<open>p\<close> is
  created; a file in the way raises.
\<close>

definition ancestors :: "ustring \<Rightarrow> ustring list" where
  "ancestors p =
     (let cs = split_on ch_slash p
      in map (\<lambda>k. join [ch_slash] (take k cs)) [1 ..< length cs + 1])"

definition mkdir1 :: "ustring \<Rightarrow> unit io" where
  "mkdir1 a w =
     (case lookup w a of
        Some Dir \<Rightarrow> (Inr (), w)
      | Some _ \<Rightarrow> (Inl (FileExistsError a), w)
      | None \<Rightarrow>
          (case fault w a of
             Some e \<Rightarrow> (Inl e, w)
           | None \<Rightarrow> (Inr (), w\<lparr>fs := fs w @ [(a, Dir)]\<rparr>)))"

fun mkdirs :: "ustring list \<Rightarrow> unit io" where
  "mkdirs [] w = (Inr (), w)"
| "mkdirs (a # as) w = and_then (mkdir1 a) (\<lambda>_. mkdirs as) w"

definition makedirs :: "ustring \<Rightarrow> unit io" where
  "makedirs p = mkdirs (ancestors p)"

text \<open>
  A file opened in text mode is read with universal newlines: \<open>\r\n\<close> and a
  single \<open>\r\<close> come out as \<open>\n\<close>.
\<close>

fun universal_newlines :: "ustring \<Rightarrow> ustring" where
  "universal_newlines [] = []"
| "universal_newlines [c] = (if c = 13 then [ch_newline] else [c])"
| "universal_newlines (c # d # cs) =
     (if c = 13 \<and> d = ch_newline then ch_newline # universal_newlines cs
      else if c = 13 then ch_newline # universal_newlines (d # cs)
      else c # universal_newlines (d # cs))"

text \<open>
  \<open>with open(p, 'w', encoding='utf-8') as f: f.write(s)\<close> and
  \<open>with open(p, 'r', encoding='utf-8') as f: return f.read()\<close>. The node of a
  file holds the text as it is stored; on the POSIX system of the paths in \<open>main\<close>,
  writing stores \<open>\n\<close> as it is.
\<close>

definition write_text :: "ustring \<Rightarrow> ustring \<Rightarrow> unit io" where
  "write_text p s w =
     (case fault w p of
        Some e \<Rightarrow> (Inl e, w)
      | None \<Rightarrow>
          (case lookup w p of
             Some Dir \<Rightarrow> (Inl (IsADirectoryError p), w)
           | _ \<Rightarrow> (Inr (), w\<lparr>fs := store p (File s) (fs w)\<rparr>)))"

definition read_text :: "ustring \<Rightarrow> ustring io" where
  "read_text p w =
     (case lookup w p of
        Some (File s) \<Rightarrow> (Inr (universal_newlines s), w)
      | Some Dir \<Rightarrow> (Inl (IsADirectoryError p), w)
      | Some (Archive es) \<Rightarrow> (Inl (UnicodeDecodeError p), w)
      | None \<Rightarrow> (Inl (FileNotFoundError p), w))"

text \<open>The bytes of a text in UTF-8 (surrogates are not text).\<close>

definition utf8_char :: "codepoint \<Rightarrow> nat list" where
  "utf8_char c =
     (if c < 128 then [c]
      else if c < 2048 then [192 + c div 64, 128 + c mod 64]
      else if c < 65536 then [224 + c div 4096, 128 + c div 64 mod 64, 128 + c mod 64]
      else [240 + c div 262144, 128 + c div 4096 mod 64, 128 + c div 64 mod 64, 128 + c mod 64])"

definition utf8 :: "ustring \<Rightarrow> nat list" where
  "utf8 s = concat (map utf8_char s)"

text \<open>\<open>read_markdown\<close>.\<close>

definition read_markdown :: "ustring \<Rightarrow> ustring io" where
  "read_markdown markdown_file = read_text markdown_file"

text \<open>\<open>create_manifest\<close>, \<open>create_content_xml\<close>, \<open>create_styles_xml\<close>, \<open>create_meta_xml\<close>.\<close>

definition create_manifest :: "ustring \<Rightarrow> unit io" where
  "create_manifest temp_dir =
     write_text (temp_dir @ py ''/META-INF/manifest.xml'') (join [ch_newline] manifest_lines)"

definition create_content_xml :: "slide list \<Rightarrow> ustring \<Rightarrow> unit io" where
  "create_content_xml self_slides temp_dir =
     write_text (temp_dir @ py ''/content.xml'') (content_xml self_slides)"

definition create_styles_xml :: "ustring \<Rightarrow> unit io" where
  "create_styles_xml temp_dir =
     write_text (temp_dir @ py ''/styles.xml'') (join [ch_newline] styles_lines)"

definition create_meta_xml :: "ustring \<Rightarrow> unit io" where
  "create_meta_xml temp_dir w =
     write_text (temp_dir @ py ''/meta.xml'') (join [ch_newline] (meta_lines (now w))) w"

text \<open>The literal written to the marker file \<open>mimetype\<close>.\<close>

definition mimetype_literal :: ustring where
  "mimetype_literal = py ''application/vnd.oasis.opendocument.presentation''"

text \<open>\<open>create_fixed_odp\<close>: the staging directory is built and its name returned.\<close>

definition create_fixed_odp :: "slide list \<Rightarrow> ustring io" where
  "create_fixed_odp self_slides =
     (let temp_dir = py ''temp_odp_fixed''
      in and_then (\<lambda>w. if path_exists w temp_dir then rmtree temp_dir w else (Inr (), w)) (\<lambda>_.
         and_then (makedirs temp_dir) (\<lambda>_.
         and_then (makedirs (temp_dir @ py ''/META-INF'')) (\<lambda>_.
         and_then (write_text (temp_dir @ py ''/mimetype'') mimetype_literal) (\<lambda>_.
         and_then (create_manifest temp_dir) (\<lambda>_.
         and_then (create_content_xml self_slides temp_dir) (\<lambda>_.
         and_then (create_styles_xml temp_dir) (\<lambda>_.
         and_then (create_meta_xml temp_dir) (\<lambda>_ w.
         (Inr temp_dir, w))))))))))"

text \<open>
  \<open>zipfile.ZipFile(p, 'w', compression)\<close> creates the archive, empty.
  \<open>ZipFile.write(filename, arcname, compress_type=None)\<close> appends the file as an entry;
  as the library documents, the entry is compressed with \<open>compress_type\<close> when it is
  given and with the compression of the archive otherwise. A directory becomes an entry
  without data.
\<close>

definition zip_open :: "ustring \<Rightarrow> unit io" where
  "zip_open p w =
     (case fault w p of
        Some e \<Rightarrow> (Inl e, w)
      | None \<Rightarrow>
          (case lookup w p of
             Some Dir \<Rightarrow> (Inl (IsADirectoryError p), w)
           | _ \<Rightarrow> (Inr (), w\<lparr>fs := store p (Archive []) (fs w)\<rparr>)))"

definition entries :: "world \<Rightarrow> ustring \<Rightarrow> zip_entry list" where
  "entries w p = (case lookup w p of Some (Archive es) \<Rightarrow> es | _ \<Rightarrow> [])"

definition zip_write ::
  "ustring \<Rightarrow> compression \<Rightarrow> ustring \<Rightarrow> ustring \<Rightarrow> compression option \<Rightarrow> unit io" where
  "zip_write p compression filename arc ct w =
     (let method = (case ct of None \<Rightarrow> compression | Some c \<Rightarrow> c);
          add = (\<lambda>e. (Inr (), w\<lparr>fs := store p (Archive (entries w p @ [e])) (fs w)\<rparr>))
      in case lookup w filename of
           None \<Rightarrow> (Inl (FileNotFoundError filename), w)
         | Some Dir \<Rightarrow>
             add \<lparr>arcname = arc @ [ch_slash], compress_type = ZIP_STORED, data = []\<rparr>
         | Some (File s) \<Rightarrow> add \<lparr>arcname = arc, compress_type = method, data = utf8 s\<rparr>
         | Some (Archive es) \<Rightarrow>
             add \<lparr>arcname = arc, compress_type = method, data = []\<rparr>)"

text \<open>
  \<open>os.walk(topdir)\<close>, as far as the program uses it: the directory \<open>topdir\<close> and then the
  directories under it, each with the names of the files directly in it.
\<close>

definition direct_files :: "world \<Rightarrow> ustring \<Rightarrow> ustring list" where
  "direct_files w d =
     map (\<lambda>(p, n). drop (length d + 1) p)
       (filter (\<lambda>(p, n). n \<noteq> Dir \<and> startswith p (d @ [ch_slash]) \<and>
                  ch_slash \<notin> set (drop (length d + 1) p)) (fs w))"

definition os_walk :: "world \<Rightarrow> ustring \<Rightarrow> (ustring \<times> ustring list) list" where
  "os_walk w topdir =
     map (\<lambda>d. (d, direct_files w d))
       (topdir #
        map fst (filter (\<lambda>(p, n). n = Dir \<and> startswith p (topdir @ [ch_slash])) (fs w)))"

text \<open>
  The two loops of \<open>create_odp_file\<close>: every file except those named \<open>mimetype\<close> is
  added under its path relative to the staging directory.
\<close>

fun add_files :: "ustring \<Rightarrow> ustring \<Rightarrow> (ustring \<times> ustring) list \<Rightarrow> unit io" where
  "add_files output_file temp_dir [] w = (Inr (), w)"
| "add_files output_file temp_dir ((root, file) # rest) w =
     (if file \<noteq> py ''mimetype'' then
        (let file_path = root @ [ch_slash] @ file;
             arc_path = drop (length temp_dir + 1) file_path
         in and_then (zip_write output_file ZIP_DEFLATED file_path arc_path None)
              (\<lambda>_. add_files output_file temp_dir rest) w)
      else add_files output_file temp_dir rest w)"

text \<open>
  \<open>create_odp_file\<close>. The marker file is added first, by
  \<open>odp_file.write(f'{temp_dir}/mimetype', 'mimetype')\<close>: no \<open>compress_type\<close> is passed.
\<close>

definition create_odp_file :: "ustring \<Rightarrow> ustring \<Rightarrow> unit io" where
  "create_odp_file output_file temp_dir =
     and_then (zip_open output_file) (\<lambda>_.
     and_then (zip_write output_file ZIP_DEFLATED (temp_dir @ py ''/mimetype'') (py ''mimetype'') None)
       (\<lambda>_ w.
          add_files output_file temp_dir
            (concat (map (\<lambda>(root, files). map (\<lambda>file. (root, file)) files) (os_walk w temp_dir)))
            w))"

text \<open>\<open>cleanup\<close>.\<close>

definition cleanup :: "ustring \<Rightarrow> unit io" where
  "cleanup temp_dir w = (if path_exists w temp_dir then rmtree temp_dir w else (Inr (), w))"

text \<open>
  \<open>convert\<close>, on a converter as its constructor leaves it (\<open>self.slides\<close> empty): the
  steps one after the other; an exception of a step ends the run and reaches the caller.
\<close>

definition convert :: "(codepoint \<Rightarrow> bool) \<Rightarrow> ustring \<Rightarrow> ustring \<Rightarrow> unit io" where
  "convert alnum markdown_file output_file =
     and_then (read_markdown markdown_file) (\<lambda>content.
     and_then (create_fixed_odp (parse_content alnum [] content)) (\<lambda>temp_dir.
     and_then (create_odp_file output_file temp_dir) (\<lambda>_.
     cleanup temp_dir)))"

text \<open>The first entry of the archive at a path, if there is one.\<close>

definition first_entry :: "world \<Rightarrow> ustring \<Rightarrow> zip_entry option" where
  "first_entry w p = (case entries w p of [] \<Rightarrow> None | e # es \<Rightarrow> Some e)"

text \<open>An operation keeps a path when the path, if it exists before, exists after.\<close>

definition keeps :: "ustring \<Rightarrow> 'a io \<Rightarrow> bool" where
  "keeps q m \<longleftrightarrow> (\<forall>w r w'. m w = (r, w') \<longrightarrow> path_exists w q \<longrightarrow> path_exists w' q)"

text \<open>
  An operation touches only the paths \<open>ps\<close> when every other path holds after it what
  it held before.
\<close>

definition touches_only :: "ustring list \<Rightarrow> 'a io \<Rightarrow> bool" where
  "touches_only ps m \<longleftrightarrow>
     (\<forall>w r w' q. m w = (r, w') \<longrightarrow> q \<notin> set ps \<longrightarrow> lookup w' q = lookup w q)"

text \<open>The directories and files that \<open>create_fixed_odp\<close> creates.\<close>

definition staging_paths :: "ustring list" where
  "staging_paths =
     [py ''temp_odp_fixed'', py ''temp_odp_fixed/META-INF'', py ''temp_odp_fixed/mimetype'',
      py ''temp_odp_fixed/META-INF/manifest.xml'', py ''temp_odp_fixed/content.xml'',
      py ''temp_odp_fixed/styles.xml'', py ''temp_odp_fixed/meta.xml'']"

text \<open>
  A world for example runs: the document \<open>## A\<close> at \<open>manual.md\<close> and nothing else,
  with the faults given; \<open>deny_output\<close> refuses to open \<open>manual.odp\<close> for writing.
\<close>

definition demo_world :: "(ustring \<Rightarrow> os_error option) \<Rightarrow> world" where
  "demo_world f =
     \<lparr>fs = [(py ''manual.md'', File (py ''## A''))], fault = f,
      now = py ''2026-01-01T00:00:00''\<rparr>"

definition deny_output :: "ustring \<Rightarrow> os_error option" where
  "deny_output p = (if p = py ''manual.odp'' then Some (PermissionError p) else None)"

text \<open>
  The same world after a run that left its staging directory behind, with a file in it
  that no run writes.
\<close>

definition stale_world :: "(ustring \<Rightarrow> os_error option) \<Rightarrow> world" where
  "stale_world f =
     \<lparr>fs = [(py ''manual.md'', File (py ''## A'')), (py ''temp_odp_fixed'', Dir),
            (py ''temp_odp_fixed/old.xml'', File (py ''<old/>''))],
      fault = f, now = py ''2026-01-01T00:00:00''\<rparr>"


section \<open>Facts about the string operations\<close>

lemma py_Nil: "py [] = []"
  by (simp add: py_def)

lemma py_Cons: "py (c # cs) = of_char c # py cs"
  by (simp add: py_def)

lemma replace_char_Nil: "replace_char old new [] = []"
  by (simp add: replace_char_def)

lemma replace_char_Cons:
  "replace_char old new (c # cs) = (if c = old then new else [c]) @ replace_char old new cs"
  by (simp add: replace_char_def)

lemma replace_char_absent: "old \<notin> set s \<Longrightarrow> replace_char old new s = s"
  by (induction s) (auto simp: replace_char_Nil replace_char_Cons)

lemma set_replace_char:
  "set (replace_char old new s) =
     (set s - {old}) \<union> (if old \<in> set s then set new else {})"
  by (induction s) (auto simp: replace_char_Nil replace_char_Cons)

lemma length_replace_char_ge:
  "new \<noteq> [] \<Longrightarrow> length s \<le> length (replace_char old new s)"
proof (induction s)
  case Nil
  then show ?case by simp
next
  case (Cons c cs)
  obtain x xs where "new = x # xs" using Cons.prems by (cases new) auto
  then show ?case using Cons by (auto simp: replace_char_Cons)
qed

lemma length_replace_char_gt:
  "old \<in> set s \<Longrightarrow> 2 \<le> length new \<Longrightarrow> length s < length (replace_char old new s)"
proof (induction s)
  case Nil
  then show ?case by simp
next
  case (Cons c cs)
  have ne: "new \<noteq> []" using Cons.prems(2) by auto
  show ?case
  proof (cases "c = old")
    case True
    have "length cs \<le> length (replace_char old new cs)"
      using ne by (rule length_replace_char_ge)
    then show ?thesis using True Cons.prems(2) by (simp add: replace_char_Cons)
  next
    case False
    then have "old \<in> set cs" using Cons.prems(1) by simp
    then have "length cs < length (replace_char old new cs)"
      using Cons.IH Cons.prems(2) by simp
    then show ?thesis using False by (simp add: replace_char_Cons)
  qed
qed

section \<open>Escaping: idempotence and the round trip\<close>

lemma escape_xml_clean:
  assumes "set s \<inter> xml_reserved = {}"
  shows "escape_xml s = s"
proof -
  have "ch_amp \<notin> set s" "ch_lt \<notin> set s" "ch_gt \<notin> set s" "ch_quot \<notin> set s"
    "ch_apos \<notin> set s"
    using assms by (auto simp: xml_reserved_def)
  then show ?thesis
    by (simp add: escape_xml_def html_escape_def Let_def replace_char_absent)
qed

lemma amp_in_escape_xml:
  assumes "set s \<inter> xml_reserved \<noteq> {}"
  shows "ch_amp \<in> set (escape_xml s)"
proof -
  have ne: "s \<noteq> []" using assms by auto
  from assms consider "ch_amp \<in> set s" | "ch_lt \<in> set s" | "ch_gt \<in> set s"
    | "ch_quot \<in> set s" | "ch_apos \<in> set s"
    by (auto simp: xml_reserved_def)
  then show ?thesis
    by cases (simp_all add: ne escape_xml_def html_escape_def Let_def set_replace_char py_def)
qed

lemma escape_xml_longer:
  assumes "ch_amp \<in> set s"
  shows "length s < length (escape_xml s)"
proof -
  have ne: "s \<noteq> []" using assms by auto
  have 1: "length s < length (replace_char ch_amp (py ''&amp;'') s)"
    using assms by (rule length_replace_char_gt) (simp add: py_def)
  have ge: "\<And>old new t. new \<noteq> [] \<Longrightarrow> length s < length t \<Longrightarrow>
      length s < length (replace_char old new t)"
    using length_replace_char_ge le_trans less_le_trans by blast
  show ?thesis
    using 1 by (simp add: ne escape_xml_def html_escape_def Let_def ge py_def)
qed

text \<open>
  C1 (as stated, refuted). The claim: for every string over the five reserved characters
  and the ASCII letters and digits, \<open>escape_xml (escape_xml s) = escape_xml s\<close>, and text
  already in entity form is left alone. The string \<open>&\<close> is over that alphabet; escaping
  it gives \<open>&amp;amp;\<close>, and escaping that gives a longer string again. The entity
  \<open>&amp;\<close> is not left alone either.
\<close>

theorem escape_xml_not_idempotent:
  "set (py ''&'') \<subseteq> xml_reserved \<union> ascii_alnum \<and>
   escape_xml (py ''&'') = py ''&amp;amp;'' \<and>
   escape_xml (escape_xml (py ''&'')) = py ''&amp;amp;amp;amp;'' \<and>
   escape_xml (escape_xml (py ''&'')) \<noteq> escape_xml (py ''&'') \<and>
   escape_xml (py ''&amp;'') \<noteq> py ''&amp;''"
  by (simp add: escape_xml_def html_escape_def replace_char_def py_def xml_reserved_def)

text \<open>
  C1 (amended). \<open>escape_xml\<close> recognises no entity: it is idempotent at a string exactly
  when the string holds none of the five reserved characters, and then it returns the
  string unchanged.
\<close>

theorem escape_xml_idempotent_iff:
  "(escape_xml (escape_xml s) = escape_xml s \<longleftrightarrow> set s \<inter> xml_reserved = {}) \<and>
   (set s \<inter> xml_reserved = {} \<longrightarrow> escape_xml s = s)"
proof (intro conjI iffI impI)
  assume eq: "escape_xml (escape_xml s) = escape_xml s"
  show "set s \<inter> xml_reserved = {}"
  proof (rule ccontr)
    assume "set s \<inter> xml_reserved \<noteq> {}"
    then have "ch_amp \<in> set (escape_xml s)" by (rule amp_in_escape_xml)
    then have "length (escape_xml s) < length (escape_xml (escape_xml s))"
      by (rule escape_xml_longer)
    then show False using eq by simp
  qed
next
  assume "set s \<inter> xml_reserved = {}"
  then show "escape_xml (escape_xml s) = escape_xml s"
    by (simp add: escape_xml_clean)
next
  assume "set s \<inter> xml_reserved = {}"
  then show "escape_xml s = s"
    by (rule escape_xml_clean)
qed

theorem escape_xml_idempotent_iff_witness:
  "set (py ''Page2'') \<inter> xml_reserved = {} \<and>
   escape_xml (py ''Page2'') = py ''Page2'' \<and>
   escape_xml (escape_xml (py ''Page2'')) = escape_xml (py ''Page2'')"
proof -
  have h: "set (py ''Page2'') \<inter> xml_reserved = {}"
    by (simp add: py_def xml_reserved_def)
  note t = escape_xml_idempotent_iff [of "py ''Page2''"]
  have a: "escape_xml (py ''Page2'') = py ''Page2''"
    using t h by blast
  have b: "escape_xml (escape_xml (py ''Page2'')) = escape_xml (py ''Page2'')"
    using t h by blast
  show ?thesis
    by (rule conjI [OF h conjI [OF a b]])
qed

text \<open>
  C2 (the code at the failing input). The string \<open>&<>"'\<close> holds each of the five
  reserved characters. \<open>escape_xml\<close> escapes its ampersand, \<open><\<close> and \<open>>\<close> twice, so an
  XML parser reads the escaped text back as \<open>&amp;&lt;&gt;"'\<close>, not as the original.
\<close>

theorem escape_xml_roundtrip_fails:
  "escape_xml (py ''&<>'' @ [ch_quot, ch_apos]) =
     py ''&amp;amp;&amp;lt;&amp;gt;&quot;&apos;'' \<and>
   xml_text (escape_xml (py ''&<>'' @ [ch_quot, ch_apos])) =
     Some (py ''&amp;&lt;&gt;'' @ [ch_quot, ch_apos]) \<and>
   xml_text (escape_xml (py ''&<>'' @ [ch_quot, ch_apos])) \<noteq>
     Some (py ''&<>'' @ [ch_quot, ch_apos])"
  by (simp add: escape_xml_def html_escape_def replace_char_def py_def startswith_def)

section \<open>The block parser: line classification\<close>

lemma startswith_append: "startswith s p \<longleftrightarrow> (\<exists>r. s = p @ r)"
  unfolding startswith_def
  by (metis append_eq_conv_conj append_take_drop_id)

lemma title_marker_not_subtitle:
  "startswith l (py ''## '') \<Longrightarrow> \<not> startswith l (py ''### '')"
  by (auto simp: startswith_append py_def)

lemma pipe_prefix_in_set: "startswith l (py ''|'') \<Longrightarrow> ch_pipe \<in> set l"
  by (auto simp: startswith_append py_def)




lemma parse_line_first_match:
  assumes "current_slide st \<noteq> None" and "strip raw \<noteq> []" and "\<not> is_title_line raw"
  shows "parse_line alnum st raw =
           st\<lparr>current_content := current_content st @ first_match line_rules (strip raw)\<rparr>"
  using assms
  by (auto simp: parse_line_def is_title_line_def Let_def line_rules_def append_block_def
      block_def table_cells_def pipe_prefix_in_set)

lemmas parse_eval = parse_content_def parse_line_def Let_def strip_def is_space_def
  startswith_def endswith_def clean_title_def is_word_def py_def append_block_def block_def

text \<open>
  C7 (the code at the failing input). \<open>| --- | --- |\<close> is a header-separator row,
  and under a title and a data row it produces a content block, the plain text
  \<open>--- | ---\<close>, between the blocks of the two data rows; \<open>|:---|---:|\<close> is one too and
  produces the plain text \<open>:--- | ---:\<close>. The parser suppresses a row only when its
  stripped text starts with the four characters \<open>|---\<close>: \<open>|---|---|\<close> produces
  nothing. The rest of the claim holds: the data row \<open>| A | B |\<close> produces exactly one
  plain-text block, with text \<open>A | B\<close>.
\<close>

theorem separator_row_emitted:
  "is_separator_row (py ''| --- | --- |'') \<and>
   parse_content alnum []
       (py ''## T'' @ [ch_newline] @ py ''| A | B |'' @ [ch_newline] @ py ''| --- | --- |''
        @ [ch_newline] @ py ''| 1 | 2 |'') =
     [\<lparr>title = py ''T'',
       content = [block PlainText (py ''A | B''), block PlainText (py ''--- | ---''),
                  block PlainText (py ''1 | 2'')]\<rparr>] \<and>
   is_separator_row (py ''|:---|---:|'') \<and>
   parse_content alnum [] (py ''## T'' @ [ch_newline] @ py ''|:---|---:|'') =
     [\<lparr>title = py ''T'', content = [block PlainText (py '':--- | ---:'')]\<rparr>] \<and>
   is_separator_row (py ''|---|---|'') \<and>
   parse_content alnum []
       (py ''## T'' @ [ch_newline] @ py ''| A | B |'' @ [ch_newline] @ py ''|---|---|''
        @ [ch_newline] @ py ''| 1 | 2 |'') =
     [\<lparr>title = py ''T'',
       content = [block PlainText (py ''A | B''), block PlainText (py ''1 | 2'')]\<rparr>] \<and>
   \<not> is_separator_row (py ''| A | B |'') \<and>
   parse_content alnum [] (py ''## T'' @ [ch_newline] @ py ''| A | B |'') =
     [\<lparr>title = py ''T'', content = [block PlainText (py ''A | B'')]\<rparr>]"
  by (simp add: is_separator_row_def delimiter_cell_def parse_eval)

text \<open>
  C8. For every table of the alphanumeric characters beyond ASCII in which the rocket
  emoji U+1F680 is not alphanumeric (it is a symbol), the document made of the title line
  \<open>## Setup\<close>, the emoji, \<open>Guide!\<close> parses to one slide with the title \<open>Setup  Guide\<close>, two spaces
  between the words: the emoji and the \<open>!\<close> are gone. In general the sanitised title is
  the title without the characters outside the class of word characters, white space
  and the hyphen: every character of the class is kept, in order, hyphens among them.
\<close>

theorem sanitized_title:
  "(\<not> alnum 128640 \<longrightarrow>
      parse_content alnum [] (py ''## Setup '' @ [128640] @ py '' Guide!'') =
        [\<lparr>title = py ''Setup  Guide'', content = []\<rparr>]) \<and>
   clean_title alnum t = filter (\<lambda>c. is_word alnum c \<or> is_space c \<or> c = ch_hyphen) t \<and>
   filter (\<lambda>c. c = ch_hyphen) (clean_title alnum t) = filter (\<lambda>c. c = ch_hyphen) t"
proof (intro conjI impI)
  assume "\<not> alnum 128640"
  then show "parse_content alnum [] (py ''## Setup '' @ [128640] @ py '' Guide!'') =
        [\<lparr>title = py ''Setup  Guide'', content = []\<rparr>]"
    by (simp add: parse_eval)
next
  show "clean_title alnum t = filter (\<lambda>c. is_word alnum c \<or> is_space c \<or> c = ch_hyphen) t"
    by (simp add: clean_title_def)
next
  show "filter (\<lambda>c. c = ch_hyphen) (clean_title alnum t) = filter (\<lambda>c. c = ch_hyphen) t"
    by (induction t) (simp_all add: clean_title_def)
qed

theorem sanitized_title_witness:
  "\<not> (\<lambda>c. 192 \<le> c \<and> c \<le> 255 \<and> c \<noteq> 215 \<and> c \<noteq> 247) (128640::nat) \<and>
   parse_content (\<lambda>c. 192 \<le> c \<and> c \<le> 255 \<and> c \<noteq> 215 \<and> c \<noteq> 247) []
       (py ''## Setup '' @ [128640] @ py '' Guide!'') =
     [\<lparr>title = py ''Setup  Guide'', content = []\<rparr>] \<and>
   clean_title (\<lambda>c. 192 \<le> c \<and> c \<le> 255 \<and> c \<noteq> 215 \<and> c \<noteq> 247)
       (py ''Caf'' @ [233] @ py ''-bar (2)!'') = py ''Caf'' @ [233] @ py ''-bar 2''"
  using sanitized_title [of "\<lambda>c. 192 \<le> c \<and> c \<le> 255 \<and> c \<noteq> 215 \<and> c \<noteq> 247"
      "py ''Caf'' @ [233] @ py ''-bar (2)!''"]
  by (simp add: is_word_def is_space_def py_def)

text \<open>
  C10. Inside a slide, a line that is not a title line and is not empty once stripped is
  classified by the first rule of \<open>line_rules\<close> whose predicate holds, in the order
  subtitle marker, bullet marker, bold markers, pipe table row, horizontal rule, plain
  text: the parser appends exactly the blocks of that rule. So \<open>**|a|b|**\<close> is a Bold
  block with text \<open>|a|b|\<close> and not a table row, and \<open>- **x**\<close> is a Bullet block with
  text \<open>**x**\<close> and not a Bold block.
\<close>

theorem classification_priority:
  "(current_slide st \<noteq> None \<and> strip raw \<noteq> [] \<and> \<not> is_title_line raw \<longrightarrow>
      parse_line alnum st raw =
        st\<lparr>current_content := current_content st @ first_match line_rules (strip raw)\<rparr>) \<and>
   first_match line_rules (py ''**|a|b|**'') = [block Bold (py ''|a|b|'')] \<and>
   first_match line_rules (py ''- **x**'') = [block Bullet (py ''**x**'')] \<and>
   parse_content alnum [] (py ''## T'' @ [ch_newline] @ py ''**|a|b|**'' @ [ch_newline]
       @ py ''- **x**'') =
     [\<lparr>title = py ''T'',
       content = [block Bold (py ''|a|b|''), block Bullet (py ''**x**'')]\<rparr>]"
proof (intro conjI impI)
  assume "current_slide st \<noteq> None \<and> strip raw \<noteq> [] \<and> \<not> is_title_line raw"
  then show "parse_line alnum st raw =
        st\<lparr>current_content := current_content st @ first_match line_rules (strip raw)\<rparr>"
    by (simp add: parse_line_first_match)
next
  show "first_match line_rules (py ''**|a|b|**'') = [block Bold (py ''|a|b|'')]"
    by (simp add: line_rules_def parse_eval)
next
  show "first_match line_rules (py ''- **x**'') = [block Bullet (py ''**x**'')]"
    by (simp add: line_rules_def parse_eval)
next
  show "parse_content alnum [] (py ''## T'' @ [ch_newline] @ py ''**|a|b|**'' @ [ch_newline]
       @ py ''- **x**'') =
     [\<lparr>title = py ''T'',
       content = [block Bold (py ''|a|b|''), block Bullet (py ''**x**'')]\<rparr>]"
    by (simp add: parse_eval)
qed

theorem classification_priority_witness:
  "current_slide \<lparr>slides = [], current_slide = Some \<lparr>title = py ''T'', content = []\<rparr>,
      current_content = []\<rparr> \<noteq> None \<and>
   strip (py ''  - **x**'') \<noteq> [] \<and>
   \<not> is_title_line (py ''  - **x**'') \<and>
   parse_line (\<lambda>c. False)
     \<lparr>slides = [], current_slide = Some \<lparr>title = py ''T'', content = []\<rparr>,
      current_content = []\<rparr> (py ''  - **x**'') =
     \<lparr>slides = [], current_slide = Some \<lparr>title = py ''T'', content = []\<rparr>,
      current_content = [block Bullet (py ''**x**'')]\<rparr>"
  using classification_priority [of
      "\<lparr>slides = [], current_slide = Some \<lparr>title = py ''T'', content = []\<rparr>,
        current_content = []\<rparr>" "py ''  - **x**''" "\<lambda>c. False"]
  by (simp add: is_title_line_def line_rules_def parse_eval)

section \<open>The package generator: shapes and the cap\<close>

lemma shape_lines_Subtitle:
  \<open>shape_lines \<lparr>increment = 8, offset_x = py ''1.4cm'', height = py ''0.6cm'',
     graphic_style = py ''gr2'', paragraph_style = py ''P2'', text_prefix = []\<rparr> y t =
   [py ''        <draw:frame draw:style-name="gr2" draw:text-style-name="P2" draw:layer="layout" svg:width="25.199cm" svg:height="0.6cm" svg:x="1.4cm" svg:y="'' @ fmt_tenths y @ py ''cm">'',
    py ''          <draw:text-box>'',
    py ''            <text:p text:style-name="P2">'' @ escape_xml t @ py ''</text:p>'',
    py ''          </draw:text-box>'',
    py ''        </draw:frame>'']\<close>
  by (simp add: shape_lines_def py_def)

lemma shape_lines_Bullet:
  \<open>shape_lines \<lparr>increment = 5, offset_x = py ''2.0cm'', height = py ''0.5cm'',
     graphic_style = py ''gr3'', paragraph_style = py ''P3'', text_prefix = [8226, 32]\<rparr> y t =
   [py ''        <draw:frame draw:style-name="gr3" draw:text-style-name="P3" draw:layer="layout" svg:width="25.199cm" svg:height="0.5cm" svg:x="2.0cm" svg:y="'' @ fmt_tenths y @ py ''cm">'',
    py ''          <draw:text-box>'',
    py ''            <text:p text:style-name="P3">'' @ [8226] @ py '' '' @ escape_xml t @ py ''</text:p>'',
    py ''          </draw:text-box>'',
    py ''        </draw:frame>'']\<close>
  by (simp add: shape_lines_def py_def)

lemma shape_lines_PlainText:
  \<open>shape_lines \<lparr>increment = 4, offset_x = py ''1.4cm'', height = py ''0.4cm'',
     graphic_style = py ''gr3'', paragraph_style = py ''P3'', text_prefix = []\<rparr> y t =
   [py ''        <draw:frame draw:style-name="gr3" draw:text-style-name="P3" draw:layer="layout" svg:width="25.199cm" svg:height="0.4cm" svg:x="1.4cm" svg:y="'' @ fmt_tenths y @ py ''cm">'',
    py ''          <draw:text-box>'',
    py ''            <text:p text:style-name="P3">'' @ escape_xml t @ py ''</text:p>'',
    py ''          </draw:text-box>'',
    py ''        </draw:frame>'']\<close>
  by (simp add: shape_lines_def py_def)

lemma content_loop_stack:
  "content_loop items y n = stack (take (8 - n) (filter emitted items)) y"
proof (induction items arbitrary: y n)
  case Nil
  then show ?case by simp
next
  case (Cons b bs)
  show ?case
  proof (cases "8 \<le> n")
    case True
    then show ?thesis by simp
  next
    case False
    then obtain k where k: "8 - n = Suc k" "8 - Suc n = k"
      by (cases "8 - n") auto
    show ?thesis
    proof (cases "item_text b = []")
      case True
      then show ?thesis using False Cons.IH by (simp add: emitted_def)
    next
      case ne: False
      show ?thesis
      proof (cases "item_type b")
        case Subtitle
        then show ?thesis
          using False ne k Cons.IH [of "y + 8" "Suc n"]
          by (simp add: emitted_def Let_def shape_lines_Subtitle)
      next
        case Bullet
        then show ?thesis
          using False ne k Cons.IH [of "y + 5" "Suc n"]
          by (simp add: emitted_def Let_def shape_lines_Bullet)
      next
        case Bold
        then show ?thesis using False ne Cons.IH by (simp add: emitted_def)
      next
        case PlainText
        then show ?thesis
          using False ne k Cons.IH [of "y + 4" "Suc n"]
          by (simp add: emitted_def Let_def shape_lines_PlainText)
      qed
    qed
  qed
qed

lemma frames_shape_lines: "length (filter is_frame_line (shape_lines l y t)) = 1"
  by (simp add: shape_lines_def is_frame_line_def startswith_def py_def)

lemma frames_stack:
  "length (filter is_frame_line (stack bs y)) =
     length (filter (\<lambda>b. layout_of (item_type b) \<noteq> None) bs)"
proof (induction bs arbitrary: y)
  case Nil
  then show ?case by simp
next
  case (Cons b bs)
  show ?case
  proof (cases "layout_of (item_type b)")
    case None
    then show ?thesis using Cons.IH by simp
  next
    case (Some l)
    then show ?thesis using Cons.IH by (simp add: frames_shape_lines)
  qed
qed

lemma frames_stack_emitted:
  "length (filter is_frame_line (stack (take k (filter emitted bs)) y)) =
     min k (length (filter emitted bs))"
proof -
  have "filter (\<lambda>b. layout_of (item_type b) \<noteq> None) (take k (filter emitted bs)) =
        take k (filter emitted bs)"
    by (rule filter_True) (auto dest!: in_set_takeD simp: emitted_def)
  then show ?thesis by (simp add: frames_stack min.commute)
qed

lemma slide_lines_stack:
  \<open>create_slide_xml_lines s n =
     butlast (create_slide_xml_lines (s\<lparr>content := []\<rparr>) n)
     @ stack (take 8 (filter emitted (content s))) 40
     @ [py ''      </draw:page>'']\<close>
  by (simp add: create_slide_xml_lines_def content_loop_stack)

lemma frames_slide:
  "length (filter is_frame_line (create_slide_xml_lines s n)) =
     1 + min 8 (length (filter emitted (content s)))"
  by (simp add: create_slide_xml_lines_def content_loop_stack frames_stack_emitted
      is_frame_line_def startswith_def py_def)

text \<open>
  C3 (the code at the failing input). A slide whose only content is a Bold block with
  the text \<open>x\<close> gets the page of a slide without content: the title shape and no content
  shape. The same text as a PlainText block gets a shape of its own. In any slide, a
  Bold block can be taken out of the content without changing the page. The rest of the
  claim holds: the increments of Subtitle, Bullet and PlainText are 0.8, 0.5 and 0.4 cm,
  and bullets are at 2.0 cm, the others at 1.4 cm.
\<close>

theorem bold_block_dropped:
  "create_slide_xml_lines \<lparr>title = py ''T'', content = [block Bold (py ''x'')]\<rparr> 0 =
     create_slide_xml_lines \<lparr>title = py ''T'', content = []\<rparr> 0 \<and>
   length (filter is_frame_line
     (create_slide_xml_lines \<lparr>title = py ''T'', content = [block Bold (py ''x'')]\<rparr> 0)) = 1 \<and>
   length (filter is_frame_line
     (create_slide_xml_lines \<lparr>title = py ''T'', content = [block PlainText (py ''x'')]\<rparr> 0)) = 2 \<and>
   create_slide_xml_lines (s\<lparr>content := xs @ block Bold t # ys\<rparr>) n =
     create_slide_xml_lines (s\<lparr>content := xs @ ys\<rparr>) n \<and>
   layout_of Bold = None \<and>
   map_option increment (layout_of Subtitle) = Some 8 \<and>
   map_option increment (layout_of Bullet) = Some 5 \<and>
   map_option increment (layout_of PlainText) = Some 4 \<and>
   map_option offset_x (layout_of Bullet) = Some (py ''2.0cm'') \<and>
   map_option offset_x (layout_of Subtitle) = Some (py ''1.4cm'') \<and>
   map_option offset_x (layout_of PlainText) = Some (py ''1.4cm'')"
proof (intro conjI)
  show "create_slide_xml_lines (s\<lparr>content := xs @ block Bold t # ys\<rparr>) n =
     create_slide_xml_lines (s\<lparr>content := xs @ ys\<rparr>) n"
    by (simp add: create_slide_xml_lines_def content_loop_stack emitted_def block_def)
qed (simp_all add: create_slide_xml_lines_def block_def is_frame_line_def startswith_def py_def)

text \<open>
  C6 (the code at the failing input). A slide with nine Bold blocks, none empty, has
  nine qualifying blocks, more than eight, and its page has the title shape and no
  content shape, where nine PlainText blocks give the title shape and eight content
  shapes. A slide with a Bold block followed by nine PlainText blocks has the page of
  the slide made of the first eight PlainText blocks: the Bold block, first of the
  qualifying blocks, has no shape and does not count toward the cap, and the ninth
  qualifying block has one. The rest of the claim holds: a block with empty text is
  skipped and does not count.
\<close>

theorem cap_misses_bold_blocks:
  "length (filter qualifying
     (map (block Bold) [py ''a'', py ''b'', py ''c'', py ''d'', py ''e'', py ''f'', py ''g'',
        py ''h'', py ''i''])) = 9 \<and>
   length (filter is_frame_line (create_slide_xml_lines
     \<lparr>title = py ''T'', content =
        map (block Bold) [py ''a'', py ''b'', py ''c'', py ''d'', py ''e'', py ''f'', py ''g'',
          py ''h'', py ''i'']\<rparr> 0)) = 1 \<and>
   length (filter is_frame_line (create_slide_xml_lines
     \<lparr>title = py ''T'', content =
        map (block PlainText) [py ''a'', py ''b'', py ''c'', py ''d'', py ''e'', py ''f'',
          py ''g'', py ''h'', py ''i'']\<rparr> 0)) = 1 + 8 \<and>
   take 8 (filter qualifying
     (block Bold (py ''x'') #
      map (block PlainText) [py ''a'', py ''b'', py ''c'', py ''d'', py ''e'', py ''f'',
        py ''g'', py ''h'', py ''i''])) =
     block Bold (py ''x'') #
     map (block PlainText) [py ''a'', py ''b'', py ''c'', py ''d'', py ''e'', py ''f'',
       py ''g''] \<and>
   create_slide_xml_lines
     \<lparr>title = py ''T'', content =
        block Bold (py ''x'') #
        map (block PlainText) [py ''a'', py ''b'', py ''c'', py ''d'', py ''e'', py ''f'',
          py ''g'', py ''h'', py ''i'']\<rparr> 0 =
     create_slide_xml_lines
       \<lparr>title = py ''T'', content =
          map (block PlainText) [py ''a'', py ''b'', py ''c'', py ''d'', py ''e'', py ''f'',
            py ''g'', py ''h'']\<rparr> 0 \<and>
   create_slide_xml_lines
     \<lparr>title = py ''T'', content =
        block PlainText [] #
        map (block PlainText) [py ''a'', py ''b'', py ''c'', py ''d'', py ''e'', py ''f'',
          py ''g'', py ''h'', py ''i'']\<rparr> 0 =
     create_slide_xml_lines
       \<lparr>title = py ''T'', content =
          map (block PlainText) [py ''a'', py ''b'', py ''c'', py ''d'', py ''e'', py ''f'',
            py ''g'', py ''h'']\<rparr> 0"
  by (simp add: create_slide_xml_lines_def qualifying_def block_def py_def is_frame_line_def
      startswith_def)

section \<open>The conversion run: staging, archive and cleanup\<close>

lemma map_of_store: "map_of (store p n l) = (map_of l)(p \<mapsto> n)"
  by (induction l) (auto simp: fun_eq_iff)

lemma path_exists_store:
  "path_exists (w\<lparr>fs := store p n (fs w)\<rparr>) q \<longleftrightarrow> q = p \<or> path_exists w q"
  by (simp add: path_exists_def lookup_def map_of_store)

lemma keeps_and_then:
  assumes "keeps q m" and "\<And>x. keeps q (f x)"
  shows "keeps q (and_then m f)"
  unfolding keeps_def
proof (intro allI impI)
  fix w r w'
  assume run: "and_then m f w = (r, w')" and ex: "path_exists w q"
  obtain r1 w1 where m: "m w = (r1, w1)" by (cases "m w")
  have ex1: "path_exists w1 q" using assms(1) m ex by (auto simp: keeps_def)
  show "path_exists w' q"
  proof (cases r1)
    case (Inl e)
    then show ?thesis using run m ex1 by (simp add: and_then_def)
  next
    case (Inr x)
    then have "f x w1 = (r, w')" using run m by (simp add: and_then_def)
    then show ?thesis using assms(2) ex1 by (auto simp: keeps_def)
  qed
qed

lemma keeps_write_text: "keeps q (write_text p s)"
  by (auto simp: keeps_def write_text_def path_exists_store
      split: option.splits node.splits)

lemma keeps_mkdir1: "keeps q (mkdir1 a)"
  by (auto simp: keeps_def mkdir1_def path_exists_def lookup_def
      split: option.splits node.splits)

lemma keeps_mkdirs: "keeps q (mkdirs as)"
proof (induction as)
  case Nil
  then show ?case by (simp add: keeps_def)
next
  case (Cons a as)
  have "mkdirs (a # as) = and_then (mkdir1 a) (\<lambda>_. mkdirs as)"
    by (rule ext) simp
  then show ?case using Cons keeps_mkdir1 by (simp add: keeps_and_then)
qed

lemma keeps_zip_open: "keeps q (zip_open p)"
  by (auto simp: keeps_def zip_open_def path_exists_store
      split: option.splits node.splits)

lemma keeps_zip_write: "keeps q (zip_write p c f a ct)"
  by (auto simp: keeps_def zip_write_def Let_def path_exists_store
      split: option.splits node.splits)

lemma keeps_add_files: "keeps q (add_files out t fl)"
proof (induction fl)
  case Nil
  then show ?case by (simp add: keeps_def)
next
  case (Cons rf fl)
  obtain root fname where rf: "rf = (root, fname)" by (cases rf)
  show ?case
  proof (cases "fname = py ''mimetype''")
    case True
    then have "add_files out t (rf # fl) = add_files out t fl"
      using rf by (intro ext) simp
    then show ?thesis using Cons by simp
  next
    case False
    then have "add_files out t (rf # fl) =
        and_then (zip_write out ZIP_DEFLATED (root @ [ch_slash] @ fname)
                    (drop (length t + 1) (root @ [ch_slash] @ fname)) None)
          (\<lambda>_. add_files out t fl)"
      using rf by (intro ext) (simp add: Let_def)
    then show ?thesis using Cons keeps_zip_write by (simp add: keeps_and_then)
  qed
qed

lemma keeps_create_odp_file: "keeps q (create_odp_file out t)"
  unfolding create_odp_file_def
proof (intro keeps_and_then keeps_zip_open keeps_zip_write)
  fix x y :: unit
  show "keeps q (\<lambda>w. add_files out t
            (concat (map (\<lambda>(root, files). map (Pair root) files) (os_walk w t))) w)"
    using keeps_add_files by (auto simp: keeps_def)
qed

lemma mkdir1_exists: "mkdir1 a w = (Inr (), w') \<Longrightarrow> path_exists w' a"
  by (auto simp: mkdir1_def path_exists_def lookup_def map_add_def
      split: option.splits node.splits)

lemma keeps_makedirs: "keeps q (makedirs p)"
  by (simp add: makedirs_def keeps_mkdirs)

lemma keeps_create_manifest: "keeps q (create_manifest t)"
  by (simp add: create_manifest_def keeps_write_text)

lemma keeps_create_content_xml: "keeps q (create_content_xml sl t)"
  by (simp add: create_content_xml_def keeps_write_text)

lemma keeps_create_styles_xml: "keeps q (create_styles_xml t)"
  by (simp add: create_styles_xml_def keeps_write_text)

lemma keeps_create_meta_xml: "keeps q (create_meta_xml t)"
  using keeps_write_text by (fastforce simp: keeps_def create_meta_xml_def)

lemma keeps_return: "keeps q (\<lambda>w. (Inr x, w))"
  by (simp add: keeps_def)

lemma mkdirs_Nil: "mkdirs [] = Pair (Inr ())"
  by (rule ext) simp

lemma staging_exists:
  assumes "create_fixed_odp sl w = (Inr t, w')"
  shows "t = py ''temp_odp_fixed'' \<and> path_exists w' (py ''temp_odp_fixed'')"
proof -
  let ?d = "py ''temp_odp_fixed''"
  let ?pre = "\<lambda>w. if path_exists w ?d then rmtree ?d w else (Inr (), w)"
  have anc: "makedirs ?d = and_then (mkdir1 ?d) (\<lambda>_ w. (Inr (), w))"
    by (rule ext) (simp add: makedirs_def ancestors_def py_def Let_def mkdirs_Nil)
  let ?rest = "\<lambda>u::unit. and_then (makedirs (?d @ py ''/META-INF'')) (\<lambda>_.
         and_then (write_text (?d @ py ''/mimetype'') mimetype_literal) (\<lambda>_.
         and_then (create_manifest ?d) (\<lambda>_.
         and_then (create_content_xml sl ?d) (\<lambda>_.
         and_then (create_styles_xml ?d) (\<lambda>_.
         and_then (create_meta_xml ?d) (\<lambda>_ w.
         (Inr ?d, w)))))))"
  have run: "create_fixed_odp sl w = and_then ?pre (\<lambda>_. and_then (makedirs ?d) ?rest) w"
    by (simp add: create_fixed_odp_def Let_def)
  obtain r0 w0 where p: "?pre w = (r0, w0)" by (cases "?pre w")
  show ?thesis
  proof (cases r0)
    case (Inl e)
    then have "fst (create_fixed_odp sl w) = Inl e"
      using p by (simp add: run and_then_def)
    then show ?thesis using assms by simp
  next
    case pre: (Inr u0)
    obtain r1 w1 where m: "mkdir1 ?d w0 = (r1, w1)" by (cases "mkdir1 ?d w0")
    show ?thesis
    proof (cases r1)
      case (Inl e)
      then have "fst (create_fixed_odp sl w) = Inl e"
        using p pre m by (simp add: run anc and_then_def)
      then show ?thesis using assms by simp
    next
      case (Inr u)
      then have ex1: "path_exists w1 ?d" using m mkdir1_exists by (cases u) auto
      have rest: "create_fixed_odp sl w = ?rest () w1"
        using p pre m Inr by (simp add: run anc and_then_def)
      have k: "keeps ?d (?rest ())"
        by (intro keeps_and_then keeps_write_text keeps_makedirs keeps_create_manifest
            keeps_create_content_xml keeps_create_styles_xml keeps_create_meta_xml keeps_return)
      have run': "?rest () w1 = (Inr t, w')" using rest assms by simp
      have "path_exists w' ?d" using k run' ex1 unfolding keeps_def by blast
      moreover have "t = ?d"
        using assms rest
        by (auto simp: and_then_def split: prod.splits sum.splits)
      ultimately show ?thesis by simp
    qed
  qed
qed

lemma rmtree_clears:
  assumes "rmtree d w = (Inr u, w')" and "under d p"
  shows "lookup w' p = None"
proof -
  have f: "map_of (filter (\<lambda>(q, n). \<not> under d q) l) p = None" for l :: "(ustring \<times> node) list"
    using assms(2) by (induction l) auto
  have "w' = w\<lparr>fs := filter (\<lambda>(q, n). \<not> under d q) (fs w)\<rparr>"
    using assms(1) by (auto simp: rmtree_def split: option.splits node.splits)
  then show ?thesis by (simp add: lookup_def f)
qed

lemma cleanup_removes: "cleanup d w = (Inr u, w') \<Longrightarrow> \<not> path_exists w' d"
proof -
  assume c: "cleanup d w = (Inr u, w')"
  show ?thesis
  proof (cases "path_exists w d")
    case True
    then have "rmtree d w = (Inr u, w')" using c by (simp add: cleanup_def)
    then have "lookup w' d = None" by (rule rmtree_clears) (simp add: under_def)
    then show ?thesis by (simp add: path_exists_def)
  next
    case False
    then show ?thesis using c by (simp add: cleanup_def)
  qed
qed

lemma lookup_store:
  "lookup (w\<lparr>fs := store p n (fs w)\<rparr>) q = (if q = p then Some n else lookup w q)"
  by (simp add: lookup_def map_of_store)

lemma touches_only_mono:
  "touches_only ps m \<Longrightarrow> set ps \<subseteq> set qs \<Longrightarrow> touches_only qs m"
  unfolding touches_only_def by blast

lemma touches_only_and_then:
  assumes "touches_only ps m" and "\<And>x. touches_only ps (f x)"
  shows "touches_only ps (and_then m f)"
  unfolding touches_only_def
proof (intro allI impI)
  fix w r w' q
  assume run: "and_then m f w = (r, w')" and q: "q \<notin> set ps"
  obtain r1 w1 where m: "m w = (r1, w1)" by (cases "m w")
  have l1: "lookup w1 q = lookup w q" using assms(1) m q by (auto simp: touches_only_def)
  show "lookup w' q = lookup w q"
  proof (cases r1)
    case (Inl e)
    then show ?thesis using run m l1 by (simp add: and_then_def)
  next
    case (Inr x)
    then have "f x w1 = (r, w')" using run m by (simp add: and_then_def)
    then have "lookup w' q = lookup w1 q" using assms(2) q by (auto simp: touches_only_def)
    then show ?thesis using l1 by simp
  qed
qed

lemma touches_only_write_text: "touches_only [p] (write_text p s)"
  by (auto simp: touches_only_def write_text_def lookup_store
      split: option.splits node.splits)

lemma touches_only_mkdir1: "touches_only [a] (mkdir1 a)"
  by (auto simp: touches_only_def mkdir1_def lookup_def map_add_def
      split: option.splits node.splits)

lemma touches_only_return: "touches_only ps (\<lambda>w. (Inr x, w))"
  by (simp add: touches_only_def)

lemma touches_only_mkdirs: "touches_only as (mkdirs as)"
proof (induction as)
  case Nil
  then show ?case by (simp add: touches_only_def)
next
  case (Cons a as)
  have e: "mkdirs (a # as) = and_then (mkdir1 a) (\<lambda>_. mkdirs as)"
    by (rule ext) simp
  have 1: "touches_only (a # as) (mkdir1 a)"
    by (rule touches_only_mono [OF touches_only_mkdir1]) simp
  have 2: "touches_only (a # as) (mkdirs as)"
    by (rule touches_only_mono [OF Cons]) auto
  show ?case unfolding e using 1 2 by (simp add: touches_only_and_then)
qed

lemma touches_only_create_meta_xml:
  "touches_only [t @ py ''/meta.xml''] (create_meta_xml t)"
  using touches_only_write_text by (fastforce simp: touches_only_def create_meta_xml_def)

lemma staging_touches:
  "touches_only staging_paths
     (and_then (makedirs (py ''temp_odp_fixed'')) (\<lambda>_.
      and_then (makedirs (py ''temp_odp_fixed'' @ py ''/META-INF'')) (\<lambda>_.
      and_then (write_text (py ''temp_odp_fixed'' @ py ''/mimetype'') mimetype_literal) (\<lambda>_.
      and_then (create_manifest (py ''temp_odp_fixed'')) (\<lambda>_.
      and_then (create_content_xml sl (py ''temp_odp_fixed'')) (\<lambda>_.
      and_then (create_styles_xml (py ''temp_odp_fixed'')) (\<lambda>_.
      and_then (create_meta_xml (py ''temp_odp_fixed'')) (\<lambda>_ w.
      (Inr (py ''temp_odp_fixed''), w)))))))))"
proof -
  have a1: "ancestors (py ''temp_odp_fixed'') = [py ''temp_odp_fixed'']"
    by (simp add: ancestors_def py_def Let_def)
  have a2: "ancestors (py ''temp_odp_fixed'' @ py ''/META-INF'') =
      [py ''temp_odp_fixed'', py ''temp_odp_fixed/META-INF'']"
    by (simp add: ancestors_def py_def Let_def)
  have m1: "touches_only staging_paths (makedirs (py ''temp_odp_fixed''))"
    unfolding makedirs_def a1
    by (rule touches_only_mono [OF touches_only_mkdirs]) (simp add: staging_paths_def)
  have m2: "touches_only staging_paths (makedirs (py ''temp_odp_fixed'' @ py ''/META-INF''))"
    unfolding makedirs_def a2
    by (rule touches_only_mono [OF touches_only_mkdirs]) (simp add: staging_paths_def)
  have w: "touches_only staging_paths (write_text p s)" if "p \<in> set staging_paths" for p s
    by (rule touches_only_mono [OF touches_only_write_text]) (use that in simp)
  have f1: "touches_only staging_paths
      (write_text (py ''temp_odp_fixed'' @ py ''/mimetype'') mimetype_literal)"
    by (rule w) (simp add: staging_paths_def py_def)
  have f2: "touches_only staging_paths (create_manifest (py ''temp_odp_fixed''))"
    unfolding create_manifest_def by (rule w) (simp add: staging_paths_def py_def)
  have f3: "touches_only staging_paths (create_content_xml sl (py ''temp_odp_fixed''))"
    unfolding create_content_xml_def by (rule w) (simp add: staging_paths_def py_def)
  have f4: "touches_only staging_paths (create_styles_xml (py ''temp_odp_fixed''))"
    unfolding create_styles_xml_def by (rule w) (simp add: staging_paths_def py_def)
  have f5: "touches_only staging_paths (create_meta_xml (py ''temp_odp_fixed''))"
    by (rule touches_only_mono [OF touches_only_create_meta_xml])
      (simp add: staging_paths_def py_def)
  show ?thesis
    by (intro touches_only_and_then m1 m2 f1 f2 f3 f4 f5 touches_only_return)
qed

lemma stale_removed:
  assumes run: "create_fixed_odp sl w = (Inr t, w')"
    and u: "under (py ''temp_odp_fixed'') p"
    and fresh: "p \<notin> set staging_paths"
    and tree: "path_exists w p \<longrightarrow> path_exists w (py ''temp_odp_fixed'')"
  shows "\<not> path_exists w' p"
proof -
  let ?d = "py ''temp_odp_fixed''"
  let ?pre = "\<lambda>w. if path_exists w ?d then rmtree ?d w else (Inr (), w)"
  let ?rest = "and_then (makedirs ?d) (\<lambda>_.
      and_then (makedirs (?d @ py ''/META-INF'')) (\<lambda>_.
      and_then (write_text (?d @ py ''/mimetype'') mimetype_literal) (\<lambda>_.
      and_then (create_manifest ?d) (\<lambda>_.
      and_then (create_content_xml sl ?d) (\<lambda>_.
      and_then (create_styles_xml ?d) (\<lambda>_.
      and_then (create_meta_xml ?d) (\<lambda>_ w.
      (Inr ?d, w))))))))"
  have eq: "create_fixed_odp sl w = and_then ?pre (\<lambda>_. ?rest) w"
    by (simp add: create_fixed_odp_def Let_def)
  obtain r0 w0 where p: "?pre w = (r0, w0)" by (cases "?pre w")
  show ?thesis
  proof (cases r0)
    case (Inl e)
    then have "fst (create_fixed_odp sl w) = Inl e"
      using p by (simp add: eq and_then_def)
    then show ?thesis using run by simp
  next
    case (Inr u0)
    have gone: "lookup w0 p = None"
    proof (cases "path_exists w ?d")
      case True
      then have "rmtree ?d w = (Inr u0, w0)" using p Inr by simp
      then show ?thesis using u by (rule rmtree_clears)
    next
      case False
      then have "w0 = w" using p by simp
      moreover have "\<not> path_exists w p" using False tree by blast
      ultimately show ?thesis by (simp add: path_exists_def)
    qed
    have "?rest w0 = (Inr t, w')"
      using run p Inr by (simp add: eq and_then_def)
    then have "lookup w' p = lookup w0 p"
      using staging_touches [of sl] fresh unfolding touches_only_def by blast
    then show ?thesis using gone by (simp add: path_exists_def)
  qed
qed

lemma convert_archive_failure:
  assumes "read_markdown md w = (Inr c, w1)"
    and "create_fixed_odp (parse_content alnum [] c) w1 = (Inr t, w2)"
    and "create_odp_file out t w2 = (Inl e, w3)"
  shows "convert alnum md out w = (Inl e, w3) \<and> path_exists w3 (py ''temp_odp_fixed'')"
proof -
  have "convert alnum md out w = (Inl e, w3)"
    using assms by (simp add: convert_def and_then_def)
  moreover have "path_exists w2 (py ''temp_odp_fixed'')"
    using assms(2) staging_exists by blast
  then have "path_exists w3 (py ''temp_odp_fixed'')"
    using keeps_create_odp_file assms(3) unfolding keeps_def by blast
  ultimately show ?thesis by simp
qed

lemma convert_success_cleans:
  assumes "fst (convert alnum md out w) = Inr ()"
  shows "\<not> path_exists (snd (convert alnum md out w)) (py ''temp_odp_fixed'')"
proof -
  obtain r1 w1 where s1: "read_markdown md w = (r1, w1)" by (cases "read_markdown md w")
  show ?thesis
  proof (cases r1)
    case (Inl e)
    then show ?thesis using assms s1 by (simp add: convert_def and_then_def)
  next
    case c: (Inr c)
    obtain r2 w2 where s2: "create_fixed_odp (parse_content alnum [] c) w1 = (r2, w2)"
      by (cases "create_fixed_odp (parse_content alnum [] c) w1")
    show ?thesis
    proof (cases r2)
      case (Inl e)
      then show ?thesis using assms s1 c s2 by (simp add: convert_def and_then_def)
    next
      case t: (Inr t)
      have td: "t = py ''temp_odp_fixed''" using s2 t staging_exists by blast
      obtain r3 w3 where s3: "create_odp_file out t w2 = (r3, w3)"
        by (cases "create_odp_file out t w2")
      show ?thesis
      proof (cases r3)
        case (Inl e)
        then show ?thesis using assms s1 c s2 t s3 by (simp add: convert_def and_then_def)
      next
        case (Inr u)
        then have "convert alnum md out w = cleanup t w3"
          using s1 c s2 t s3 by (simp add: convert_def and_then_def)
        then have "cleanup t w3 = (Inr (), snd (convert alnum md out w))"
          using assms by (simp add: prod_eq_iff)
        then show ?thesis
          using cleanup_removes td by blast
      qed
    qed
  qed
qed

lemmas io_eval = convert_def and_then_def read_markdown_def read_text_def lookup_def
  create_fixed_odp_def path_exists_def makedirs_def ancestors_def mkdir1_def write_text_def
  create_manifest_def create_content_xml_def create_styles_xml_def create_meta_xml_def
  create_odp_file_def zip_open_def zip_write_def entries_def os_walk_def direct_files_def
  cleanup_def rmtree_def under_def first_entry_def mimetype_literal_def utf8_def utf8_char_def
  demo_world_def deny_output_def stale_world_def

text \<open>
  C4 (the code at the failing input). A run on the document \<open>## A\<close> with no fault
  succeeds, and the first entry of the archive it writes is named \<open>mimetype\<close> and holds
  the bytes of the literal media type, without a newline; but its compression method
  is \<open>ZIP_DEFLATED\<close>, the default of the archive, not \<open>ZIP_STORED\<close>: \<open>create_odp_file\<close>
  passes no \<open>compress_type\<close> when it adds the marker file.
\<close>

theorem mimetype_entry_deflated:
  "fst (convert (\<lambda>c. False) (py ''manual.md'') (py ''manual.odp'') (demo_world (\<lambda>p. None))) =
     Inr () \<and>
   first_entry
     (snd (convert (\<lambda>c. False) (py ''manual.md'') (py ''manual.odp'') (demo_world (\<lambda>p. None))))
     (py ''manual.odp'') =
     Some \<lparr>arcname = py ''mimetype'', compress_type = ZIP_DEFLATED,
           data = py ''application/vnd.oasis.opendocument.presentation''\<rparr> \<and>
   map_option compress_type (first_entry
     (snd (convert (\<lambda>c. False) (py ''manual.md'') (py ''manual.odp'') (demo_world (\<lambda>p. None))))
     (py ''manual.odp'')) \<noteq> Some ZIP_STORED"
  by (simp add: io_eval parse_eval)

text \<open>
  C5 (as stated, refuted). In a world where \<open>manual.odp\<close> cannot be opened for writing,
  the run ends with that error, and the staging directory \<open>temp_odp_fixed\<close> is still
  there: \<open>convert\<close> has no handler around the archive step, so \<open>cleanup\<close> is not
  reached.
\<close>

theorem staging_left_behind:
  "fst (convert (\<lambda>c. False) (py ''manual.md'') (py ''manual.odp'') (demo_world deny_output)) =
     Inl (PermissionError (py ''manual.odp'')) \<and>
   path_exists
     (snd (convert (\<lambda>c. False) (py ''manual.md'') (py ''manual.odp'') (demo_world deny_output)))
     (py ''temp_odp_fixed'')"
  by (simp add: io_eval parse_eval)

text \<open>
  C5 (amended). When the run reaches the archive step and that step raises \<open>e\<close>, the run
  ends with \<open>e\<close> itself, in the world the archive step left, and the staging directory
  still exists there. When the run succeeds, the staging directory is gone. What an
  earlier run left behind is removed when the next run builds its staging directory:
  once \<open>create_fixed_odp\<close> has succeeded, no path under \<open>temp_odp_fixed\<close> exists other
  than the seven it creates (in a file system where a path under a directory exists only
  if the directory does).
\<close>

theorem archive_failure_surfaced:
  "(read_markdown md w = (Inr c, w1) \<and>
    create_fixed_odp (parse_content alnum [] c) w1 = (Inr t, w2) \<and>
    create_odp_file out t w2 = (Inl e, w3) \<longrightarrow>
      convert alnum md out w = (Inl e, w3) \<and> path_exists w3 (py ''temp_odp_fixed'')) \<and>
   (fst (convert alnum md out w) = Inr () \<longrightarrow>
      \<not> path_exists (snd (convert alnum md out w)) (py ''temp_odp_fixed'')) \<and>
   (create_fixed_odp (parse_content alnum [] c) w1 = (Inr t, w2) \<and>
    under (py ''temp_odp_fixed'') p \<and> p \<notin> set staging_paths \<and>
    (path_exists w1 p \<longrightarrow> path_exists w1 (py ''temp_odp_fixed'')) \<longrightarrow>
      \<not> path_exists w2 p)"
  using convert_archive_failure convert_success_cleans stale_removed by blast

theorem archive_failure_surfaced_witness:
  "read_markdown (py ''manual.md'') (stale_world deny_output) =
     (Inr (py ''## A''), stale_world deny_output) \<and>
   create_fixed_odp (parse_content (\<lambda>c. False) [] (py ''## A'')) (stale_world deny_output) =
     (Inr (py ''temp_odp_fixed''),
      snd (create_fixed_odp (parse_content (\<lambda>c. False) [] (py ''## A''))
             (stale_world deny_output))) \<and>
   create_odp_file (py ''manual.odp'') (py ''temp_odp_fixed'')
       (snd (create_fixed_odp (parse_content (\<lambda>c. False) [] (py ''## A''))
               (stale_world deny_output))) =
     (Inl (PermissionError (py ''manual.odp'')),
      snd (create_fixed_odp (parse_content (\<lambda>c. False) [] (py ''## A''))
             (stale_world deny_output))) \<and>
   under (py ''temp_odp_fixed'') (py ''temp_odp_fixed/old.xml'') \<and>
   py ''temp_odp_fixed/old.xml'' \<notin> set staging_paths \<and>
   path_exists (stale_world deny_output) (py ''temp_odp_fixed/old.xml'') \<and>
   path_exists (stale_world deny_output) (py ''temp_odp_fixed'') \<and>
   convert (\<lambda>c. False) (py ''manual.md'') (py ''manual.odp'') (stale_world deny_output) =
     (Inl (PermissionError (py ''manual.odp'')),
      snd (create_fixed_odp (parse_content (\<lambda>c. False) [] (py ''## A''))
             (stale_world deny_output))) \<and>
   path_exists
     (snd (create_fixed_odp (parse_content (\<lambda>c. False) [] (py ''## A''))
             (stale_world deny_output)))
     (py ''temp_odp_fixed'') \<and>
   \<not> path_exists
     (snd (create_fixed_odp (parse_content (\<lambda>c. False) [] (py ''## A''))
             (stale_world deny_output)))
     (py ''temp_odp_fixed/old.xml'')"
proof -
  let ?w = "stale_world deny_output"
  let ?s = "parse_content (\<lambda>c. False) [] (py ''## A'')"
  let ?w2 = "snd (create_fixed_odp ?s ?w)"
  let ?e = "PermissionError (py ''manual.odp'')"
  let ?p = "py ''temp_odp_fixed/old.xml''"
  have h1: "read_markdown (py ''manual.md'') ?w = (Inr (py ''## A''), ?w)"
    by (simp add: io_eval py_def)
  have "fst (create_fixed_odp ?s ?w) = Inr (py ''temp_odp_fixed'')"
    by (simp add: io_eval parse_eval)
  then have h2: "create_fixed_odp ?s ?w = (Inr (py ''temp_odp_fixed''), ?w2)"
    by (simp add: prod_eq_iff)
  have h3: "create_odp_file (py ''manual.odp'') (py ''temp_odp_fixed'') ?w2 = (Inl ?e, ?w2)"
    by (simp add: io_eval parse_eval)
  have h4: "under (py ''temp_odp_fixed'') ?p"
    by (simp add: under_def startswith_def py_def)
  have h5: "?p \<notin> set staging_paths"
    by (simp add: staging_paths_def py_def)
  have h6: "path_exists ?w ?p"
    by (simp add: io_eval py_def)
  have h7: "path_exists ?w (py ''temp_odp_fixed'')"
    by (simp add: io_eval py_def)
  note t = archive_failure_surfaced [of "py ''manual.md''" ?w "py ''## A''" ?w "\<lambda>c. False"
      "py ''temp_odp_fixed''" ?w2 "py ''manual.odp''" ?e ?w2 ?p]
  have c: "convert (\<lambda>c. False) (py ''manual.md'') (py ''manual.odp'') ?w = (Inl ?e, ?w2)"
    using t h1 h2 h3 by blast
  have q: "path_exists ?w2 (py ''temp_odp_fixed'')"
    using t h1 h2 h3 by blast
  have g: "\<not> path_exists ?w2 ?p"
    using t h2 h4 h5 h7 by blast
  show ?thesis
    by (rule conjI [OF h1 conjI [OF h2 conjI [OF h3 conjI [OF h4 conjI [OF h5
          conjI [OF h6 conjI [OF h7 conjI [OF c conjI [OF q g]]]]]]]]])
qed

section \<open>Documents without slides\<close>























end
